theory Spec2Isabelle
  imports Complex_Main "HOL-Library.Product_Lexorder" "HOL-Library.Multiset"
begin

section \<open>Numbers and Python built-ins\<close>

text \<open>
  Coordinates, sizes and ratios are Python floats in the source; they are modelled by
  the real numbers they denote, and where a statement depends on how a result is
  rounded, the arithmetic is binary64 (section ``Binary64 arithmetic''). Python strings
  are modelled as \<^typ>\<open>string\<close>, the list of their code points, taken below 256.

  \<open>round(x, n)\<close> rounds to \<open>n\<close> decimals, ties going to the even neighbour.
\<close>

definition py_round_int :: "real \<Rightarrow> int" where
  "py_round_int x =
     (let f = \<lfloor>x\<rfloor>; d = x - of_int f
      in if d < 1 / 2 then f else if 1 / 2 < d then f + 1 else if even f then f else f + 1)"

definition py_round :: "real \<Rightarrow> nat \<Rightarrow> real" where
  "py_round x n = of_int (py_round_int (x * 10 ^ n)) / 10 ^ n"




section \<open>Word builder (geometry/word\_builder.py)\<close>

record pchar =
  c_text :: string
  c_x0 :: real
  c_y0 :: real
  c_x1 :: real
  c_y1 :: real
  c_fontname :: string
  c_size :: real
  c_color :: string

record word =
  w_text :: string
  w_x0 :: real
  w_y0 :: real
  w_x1 :: real
  w_y1 :: real
  w_fontname :: string
  w_size :: real
  w_color :: string





definition char_key :: "pchar \<Rightarrow> real \<times> real" where
  "char_key c = (py_round (c_y0 c) 1, c_x0 c)"





subsection \<open>The words partition the chars\<close>











text \<open>
  The chars of the repository's own word-builder test (\<open>H i\<close>, a space, then
  \<open>W o\<close> after a wide gap), given out of order.
\<close>

definition test_chars :: "pchar list" where
  "test_chars =
     [\<lparr>c_text = ''W'', c_x0 = 40, c_y0 = 100, c_x1 = 52, c_y1 = 112,
        c_fontname = ''Arial'', c_size = 12, c_color = ''#000''\<rparr>,
      \<lparr>c_text = ''H'', c_x0 = 10, c_y0 = 100, c_x1 = 18, c_y1 = 112,
        c_fontname = ''Arial'', c_size = 12, c_color = ''#000''\<rparr>,
      \<lparr>c_text = ''o'', c_x0 = 52, c_y0 = 100, c_x1 = 60, c_y1 = 112,
        c_fontname = ''Arial'', c_size = 12, c_color = ''#000''\<rparr>,
      \<lparr>c_text = ''i'', c_x0 = 18, c_y0 = 100, c_x1 = 22, c_y1 = 112,
        c_fontname = ''Arial'', c_size = 12, c_color = ''#000''\<rparr>,
      \<lparr>c_text = '' '', c_x0 = 22, c_y0 = 100, c_x1 = 26, c_y1 = 112,
        c_fontname = ''Arial'', c_size = 12, c_color = ''#000''\<rparr>]"

lemma test_chars_sorted:
  "map c_text (sort_key char_key test_chars) = [''H'', ''i'', '' '', ''W'', ''o'']"
  by (simp add: test_chars_def char_key_def py_round_def py_round_int_def)



section \<open>Block and table dicts\<close>

text \<open>
  The dicts the geometry layer hands on. A line is what \<open>_merge_words\<close> returns; a
  block is what \<open>_merge_lines\<close> returns, with the keys later stages add
  (\<open>block_type\<close>, \<open>role\<close>, \<open>reading_order\<close>, \<open>rhetoric\<close>, \<open>rhetoric_features\<close>,
  \<open>style_id\<close>) optional: \<open>None\<close> is the absent key. The keys every producer of the
  repository sets (\<open>id\<close>, \<open>text\<close>, the four coordinates, \<open>fontname\<close>, \<open>size\<close>,
  \<open>color\<close>, \<open>words\<close>; for a table \<open>id\<close>, \<open>rows\<close>, \<open>cols\<close>, \<open>bbox\<close>, \<open>cells\<close>) are
  fields that are always there, and a bbox is a 4-tuple.
\<close>

type_synonym bbox = "real \<times> real \<times> real \<times> real"

record line =
  l_text :: string
  l_x0 :: real
  l_y0 :: real
  l_x1 :: real
  l_y1 :: real
  l_fontname :: string
  l_size :: real
  l_color :: string
  l_words :: "word list"

record block_d =
  b_id :: string
  b_text :: string
  b_x0 :: real
  b_y0 :: real
  b_x1 :: real
  b_y1 :: real
  b_fontname :: string
  b_size :: real
  b_color :: string
  b_lines :: "line list"
  b_words :: "word list"
  b_block_type :: "string option"
  b_role :: "string option"
  b_reading_order :: "int option"
  b_rhetoric :: "(string \<times> string) list option"
  b_rhetoric_features :: "(string \<times> real) list option"
  b_style_id :: "string option"

record cell_d =
  cd_row :: int
  cd_col :: int
  cd_row_span :: int
  cd_col_span :: int
  cd_text :: string
  cd_bbox :: bbox

record table_d =
  t_id :: string
  t_page :: int
  t_rows :: int
  t_cols :: int
  t_bbox :: bbox
  t_cells :: "cell_d list"

section \<open>Binary64 arithmetic\<close>

text \<open>
  Where a result depends on how an arithmetic operation rounds, the operation is the
  machine's: it returns the exact result rounded to the nearest binary64 number, ties
  going to the even significand, and an infinity when that lies beyond the largest
  binary64 number. \<open>binary64\<close> rounds with no bound on the exponent above; below, the
  exponent stops at \<open>-1022\<close>, where the subnormal numbers begin.
\<close>

definition pow2 :: "int \<Rightarrow> real" where
  "pow2 k = (if 0 \<le> k then 2 ^ nat k else 1 / 2 ^ nat (- k))"

definition binary64 :: "real \<Rightarrow> real" where
  "binary64 x =
     (if x = 0 then 0
      else (let e = max \<lfloor>log 2 \<bar>x\<bar>\<rfloor> (- 1022);
                ulp = pow2 (e - 52)
            in sgn x * of_int (py_round_int (\<bar>x\<bar> / ulp)) * ulp))"

datatype float = Fin real | PInf | NInf | NaN

definition round64 :: "real \<Rightarrow> float" where
  "round64 x =
     (let r = binary64 x
      in if pow2 1024 \<le> r then PInf else if r \<le> - pow2 1024 then NInf else Fin r)"

text \<open>The difference of two finite numbers.\<close>

definition f_sub :: "real \<Rightarrow> real \<Rightarrow> float" where
  "f_sub x y = round64 (x - y)"

fun f_mul :: "float \<Rightarrow> float \<Rightarrow> float" where
  "f_mul (Fin x) (Fin y) = round64 (x * y)"
| "f_mul NaN b = NaN"
| "f_mul a NaN = NaN"
| "f_mul (Fin x) PInf = (if x = 0 then NaN else if 0 < x then PInf else NInf)"
| "f_mul (Fin x) NInf = (if x = 0 then NaN else if 0 < x then NInf else PInf)"
| "f_mul PInf (Fin y) = (if y = 0 then NaN else if 0 < y then PInf else NInf)"
| "f_mul NInf (Fin y) = (if y = 0 then NaN else if 0 < y then NInf else PInf)"
| "f_mul PInf PInf = PInf"
| "f_mul NInf NInf = PInf"
| "f_mul PInf NInf = NInf"
| "f_mul NInf PInf = NInf"

text \<open>
  \<open>a / b\<close>. Python raises \<open>ZeroDivisionError\<close> on a zero divisor; the one division of
  this development has a divisor that is never zero (\<open>block_area_not_zero\<close> below).
\<close>

fun f_div :: "float \<Rightarrow> float \<Rightarrow> float" where
  "f_div (Fin x) (Fin y) = round64 (x / y)"
| "f_div NaN b = NaN"
| "f_div a NaN = NaN"
| "f_div (Fin x) PInf = Fin 0"
| "f_div (Fin x) NInf = Fin 0"
| "f_div PInf (Fin y) = (if 0 \<le> y then PInf else NInf)"
| "f_div NInf (Fin y) = (if 0 \<le> y then NInf else PInf)"
| "f_div PInf PInf = NaN"
| "f_div NInf NInf = NaN"
| "f_div PInf NInf = NaN"
| "f_div NInf PInf = NaN"

text \<open>\<open>a > b\<close>: false as soon as one side is not a number.\<close>

fun f_gt :: "float \<Rightarrow> float \<Rightarrow> bool" where
  "f_gt (Fin x) (Fin y) = (y < x)"
| "f_gt PInf (Fin y) = True"
| "f_gt PInf NInf = True"
| "f_gt (Fin x) NInf = True"
| "f_gt a b = False"

text \<open>\<open>max(a, b)\<close> of two arguments: \<open>b\<close> if \<open>b > a\<close>, else \<open>a\<close>.\<close>

definition py_max :: "float \<Rightarrow> float \<Rightarrow> float" where
  "py_max a b = (if f_gt b a then b else a)"

lemma pow2_powr: "pow2 k = 2 powr of_int k"
  by (simp add: pow2_def powr_real_of_int inverse_eq_divide)

lemma pow2_pos: "0 < pow2 k"
  by (simp add: pow2_def)

lemma exponent_eq:
  assumes "pow2 e \<le> x" and "x < pow2 (e + 1)"
  shows "\<lfloor>log 2 x\<rfloor> = e"
proof -
  have x: "0 < x"
    using pow2_pos [of e] assms(1) by (rule less_le_trans)
  have "of_int e \<le> log 2 x"
    using assms(1) x by (simp add: pow2_powr le_log_iff)
  moreover have "log 2 x < of_int (e + 1)"
    using assms(2) x by (simp add: pow2_powr log_less_iff)
  ultimately show ?thesis
    by (simp add: floor_eq_iff)
qed

text \<open>How \<open>binary64\<close> is evaluated: the exponent is given, and checked.\<close>

lemma binary64_eval:
  assumes "pow2 e \<le> \<bar>x\<bar>" and "\<bar>x\<bar> < pow2 (e + 1)" and "- 1022 \<le> e"
  shows "binary64 x = sgn x * of_int (py_round_int (\<bar>x\<bar> / pow2 (e - 52))) * pow2 (e - 52)"
proof -
  have "0 < \<bar>x\<bar>"
    using pow2_pos [of e] assms(1) by (rule less_le_trans)
  then have "x \<noteq> 0"
    by simp
  moreover have "\<lfloor>log 2 \<bar>x\<bar>\<rfloor> = e"
    using assms(1,2) by (rule exponent_eq)
  ultimately show ?thesis
    using assms(3) by (simp add: binary64_def Let_def max_def)
qed









lemma binary64_hundredth: "binary64 (1 / 100) = 5764607523034235 / 576460752303423488"
  using binary64_eval [of "- 7" "1 / 100"] by (simp add: pow2_def py_round_int_def Let_def)



lemma round64_hundredth: "round64 (1 / 100) = Fin (5764607523034235 / 576460752303423488)"
  by (simp add: round64_def binary64_hundredth pow2_def)

section \<open>Table de-duplication (geometry/table\_extractor.py)\<close>

text \<open>
  The coordinates of blocks and tables are finite binary64 numbers; the areas and the
  ratio are computed from them in binary64 arithmetic. \<open>0.01\<close> is the binary64 number
  nearest to one hundredth.
\<close>

definition block_area :: "block_d \<Rightarrow> float" where
  "block_area b =
     py_max (f_mul (f_sub (b_x1 b) (b_x0 b)) (f_sub (b_y1 b) (b_y0 b))) (round64 (1 / 100))"

definition inter_area :: "block_d \<Rightarrow> bbox \<Rightarrow> float" where
  "inter_area b t =
     (case t of (tx0, ty0, tx1, ty1) \<Rightarrow>
        (let ix0 = max (b_x0 b) tx0;
             iy0 = max (b_y0 b) ty0;
             ix1 = min (b_x1 b) tx1;
             iy1 = min (b_y1 b) ty1
         in f_mul (py_max (Fin 0) (f_sub ix1 ix0)) (py_max (Fin 0) (f_sub iy1 iy0))))"

text \<open>The inner loop over the tables, with its \<open>break\<close> at the first overlap.\<close>

fun overlaps_any :: "real \<Rightarrow> block_d \<Rightarrow> table_d list \<Rightarrow> bool" where
  "overlaps_any thr b [] = False"
| "overlaps_any thr b (t # ts) =
     (if f_gt (f_div (inter_area b (t_bbox t)) (block_area b)) (Fin thr) then True
      else overlaps_any thr b ts)"

fun dedup_loop :: "real \<Rightarrow> table_d list \<Rightarrow> block_d list \<Rightarrow> block_d list" where
  "dedup_loop thr tables [] = []"
| "dedup_loop thr tables (b # bs) =
     (if overlaps_any thr b tables then dedup_loop thr tables bs
      else b # dedup_loop thr tables bs)"

definition deduplicate_blocks_from_tables ::
    "block_d list \<Rightarrow> table_d list \<Rightarrow> real \<Rightarrow> block_d list" where
  "deduplicate_blocks_from_tables text_blocks tables overlap_threshold =
     (if tables = [] then text_blocks else dedup_loop overlap_threshold tables text_blocks)"

text \<open>The default \<open>overlap_threshold = 0.5\<close>, as the pipeline calls it.\<close>

definition dedup_default :: "block_d list \<Rightarrow> table_d list \<Rightarrow> block_d list" where
  "dedup_default text_blocks tables = deduplicate_blocks_from_tables text_blocks tables (1 / 2)"

text \<open>
  For the statements: the block's own area, as the code computes it; the ratio that the
  code compares with the threshold; a well-formed block bbox lying entirely within a
  table bbox.
\<close>

definition own_area :: "block_d \<Rightarrow> float" where
  "own_area b = f_mul (f_sub (b_x1 b) (b_x0 b)) (f_sub (b_y1 b) (b_y0 b))"

definition overlap_ratio :: "block_d \<Rightarrow> bbox \<Rightarrow> float" where
  "overlap_ratio b t = f_div (inter_area b t) (py_max (own_area b) (round64 (1 / 100)))"


definition mk_block :: "string \<Rightarrow> string \<Rightarrow> bbox \<Rightarrow> block_d" where
  "mk_block i txt bb =
     (case bb of (x0, y0, x1, y1) \<Rightarrow>
        \<lparr> b_id = i, b_text = txt, b_x0 = x0, b_y0 = y0, b_x1 = x1, b_y1 = y1,
          b_fontname = ''Arial'', b_size = 12, b_color = ''#000000'', b_lines = [],
          b_words = [], b_block_type = None, b_role = None, b_reading_order = None,
          b_rhetoric = None, b_rhetoric_features = None, b_style_id = None \<rparr>)"

definition mk_table :: "string \<Rightarrow> bbox \<Rightarrow> table_d" where
  "mk_table i bb =
     \<lparr> t_id = i, t_page = 1, t_rows = 1, t_cols = 1, t_bbox = bb, t_cells = [] \<rparr>"






lemma block_area_not_zero: "block_area b \<noteq> Fin 0"
  by (cases "f_mul (f_sub (b_x1 b) (b_x0 b)) (f_sub (b_y1 b) (b_y0 b))")
    (auto simp: block_area_def py_max_def round64_hundredth)






text \<open>
  A block and a table whose coordinates are the binary64 numbers nearest to
  \<open>(0.6, 0.1, 3.8, 5.9)\<close> and \<open>(0, 0, 2.2, 100)\<close>.
\<close>

definition edge_block :: block_d where
  "edge_block = mk_block ''b4'' ''edge''
     (5404319552844595 / 9007199254740992, 3602879701896397 / 36028797018963968,
      4278419646001971 / 1125899906842624, 3321404725185741 / 562949953421312)"

definition edge_table :: table_d where
  "edge_table = mk_table ''t2'' (0, 0, 2476979795053773 / 1125899906842624, 100)"

lemma binary64_values:
  "binary64 (1 / 100) = 5764607523034235 / 576460752303423488"
  "binary64 (1 / 16) = 1 / 16"
  "binary64 (1 / 256) = 1 / 256"
  "binary64 (2251799813685248 / 5764607523034235) = 25 / 64"
  "binary64 (40) = 40"
  "binary64 (20) = 20"
  "binary64 (800) = 800"
  "binary64 (1) = 1"
  "binary64 (100) = 100"
  "binary64 (2000) = 2000"
  "binary64 (- 100) = - 100"
  "binary64 (28823037615171173 / 9007199254740992) = 7205759403792793 / 2251799813685248"
  "binary64 (208967022709991027 / 36028797018963968) = 1632554864921805 / 281474976710656"
  "binary64 (11763797570117969307508367551365 / 633825300114114700748351602688) = 326510972984361 / 17592186044416"
  "binary64 (14411518807585589 / 9007199254740992) = 3602879701896397 / 2251799813685248"
  "binary64 (5881898785058985470031616236585 / 633825300114114700748351602688) = 326510972984361 / 35184372088832"
  "binary64 (1 / 2) = 1 / 2"
  using binary64_eval [of "- 7" "1 / 100"]
    binary64_eval [of "- 4" "1 / 16"]
    binary64_eval [of "- 8" "1 / 256"]
    binary64_eval [of "- 2" "2251799813685248 / 5764607523034235"]
    binary64_eval [of 5 "40"]
    binary64_eval [of 4 "20"]
    binary64_eval [of 9 "800"]
    binary64_eval [of 0 "1"]
    binary64_eval [of 6 "100"]
    binary64_eval [of 10 "2000"]
    binary64_eval [of 6 "- 100"]
    binary64_eval [of 1 "28823037615171173 / 9007199254740992"]
    binary64_eval [of 2 "208967022709991027 / 36028797018963968"]
    binary64_eval [of 4 "11763797570117969307508367551365 / 633825300114114700748351602688"]
    binary64_eval [of 0 "14411518807585589 / 9007199254740992"]
    binary64_eval [of 3 "5881898785058985470031616236585 / 633825300114114700748351602688"]
    binary64_eval [of "- 1" "1 / 2"]
  by (simp_all add: pow2_def py_round_int_def Let_def)

lemma round64_values:
  "round64 (1 / 16) = Fin (1 / 16)"
  "round64 (1 / 256) = Fin (1 / 256)"
  "round64 (2251799813685248 / 5764607523034235) = Fin (25 / 64)"
  "round64 40 = Fin 40" "round64 20 = Fin 20" "round64 800 = Fin 800"
  "round64 100 = Fin 100" "round64 2000 = Fin 2000" "round64 (- 100) = Fin (- 100)"
  "round64 (28823037615171173 / 9007199254740992) = Fin (7205759403792793 / 2251799813685248)"
  "round64 (208967022709991027 / 36028797018963968) = Fin (1632554864921805 / 281474976710656)"
  "round64 (11763797570117969307508367551365 / 633825300114114700748351602688)
     = Fin (326510972984361 / 17592186044416)"
  "round64 (14411518807585589 / 9007199254740992) = Fin (3602879701896397 / 2251799813685248)"
  "round64 (5881898785058985470031616236585 / 633825300114114700748351602688)
     = Fin (326510972984361 / 35184372088832)"
  "round64 (1 / 2) = Fin (1 / 2)"
  by (simp_all add: round64_def binary64_values pow2_def)




text \<open>
  The rounding decides: in exact arithmetic the intersection of \<open>edge_block\<close> with
  \<open>edge_table\<close> is more than half of the block, the computed ratio is \<open>0.5\<close>, and the
  block is kept.
\<close>

lemma edge_block_kept:
  "1 / 2 < (2476979795053773 / 1125899906842624 - b_x0 edge_block) * (b_y1 edge_block - b_y0 edge_block)
           / ((b_x1 edge_block - b_x0 edge_block) * (b_y1 edge_block - b_y0 edge_block))"
  "overlap_ratio edge_block (t_bbox edge_table) = Fin (1 / 2)"
  "dedup_default [edge_block] [edge_table] = [edge_block]"
  by (simp_all add: edge_block_def edge_table_def mk_block_def mk_table_def own_area_def
      inter_area_def overlap_ratio_def block_area_def f_sub_def py_max_def round64_values
      round64_hundredth dedup_default_def deduplicate_blocks_from_tables_def)

section \<open>Page-range parsing (pipeline.py, \<open>_parse_page_range\<close>)\<close>

text \<open>
  A Python string is modelled as the list of its code points, taken below 256.
  \<open>str.isspace\<close> holds of twelve of them, and \<open>str.strip()\<close> removes exactly those
  from both ends.
\<close>

definition is_space :: "char \<Rightarrow> bool" where
  "is_space c = (c \<in> set [CHR '' '', CHR 0x09, CHR 0x0A, CHR 0x0B, CHR 0x0C, CHR 0x0D,
                             CHR 0x1C, CHR 0x1D, CHR 0x1E, CHR 0x1F, CHR 0x85, CHR 0xA0])"

definition strip :: "string \<Rightarrow> string" where
  "strip s = rev (dropWhile is_space (rev (dropWhile is_space s)))"

text \<open>\<open>s.split(sep)\<close> for a one-character separator.\<close>

fun split_on :: "char \<Rightarrow> string \<Rightarrow> string list" where
  "split_on sep [] = [[]]"
| "split_on sep (c # cs) =
     (if c = sep then [] # split_on sep cs
      else (case split_on sep cs of
              [] \<Rightarrow> [[c]]
            | p # ps \<Rightarrow> (c # p) # ps))"

text \<open>
  \<open>int(s)\<close>: white space around the number is skipped, but the four separators
  \<open>0x1C\<close> to \<open>0x1F\<close> are not white space for \<open>int\<close>; then an optional sign and decimal
  digits, with single underscores allowed between digits. Anything else raises
  \<open>ValueError\<close> (here \<open>None\<close>), and so does a number of more than
  \<open>sys.get_int_max_str_digits()\<close> digits, 4300 unless the interpreter is told otherwise.
\<close>

definition int_space :: "char \<Rightarrow> bool" where
  "int_space c = (c \<in> set [CHR '' '', CHR 0x09, CHR 0x0A, CHR 0x0B, CHR 0x0C, CHR 0x0D,
                              CHR 0x85, CHR 0xA0])"

definition int_max_str_digits :: nat where
  "int_max_str_digits = 4300"

definition is_digit :: "char \<Rightarrow> bool" where
  "is_digit c = (c \<in> set ''0123456789'')"

definition digit_val :: "char \<Rightarrow> int" where
  "digit_val c = int (of_char c) - 48"

fun digits_ok :: "string \<Rightarrow> bool" where
  "digits_ok [] = False"
| "digits_ok [c] = is_digit c"
| "digits_ok (c # d # cs) =
     (is_digit c \<and> (if d = CHR ''_'' then digits_ok cs else digits_ok (d # cs)))"

definition digits_value :: "string \<Rightarrow> int" where
  "digits_value ds = foldl (\<lambda>acc c. 10 * acc + digit_val c) 0 (filter is_digit ds)"

definition py_int :: "string \<Rightarrow> int option" where
  "py_int s =
     (let t = rev (dropWhile int_space (rev (dropWhile int_space s)));
          sgn = (case t of c # _ \<Rightarrow> (if c = CHR ''-'' then - 1 else 1) | [] \<Rightarrow> (1::int));
          body = (case t of c # r \<Rightarrow> (if c = CHR ''-'' \<or> c = CHR ''+'' then r else t) | [] \<Rightarrow> t)
      in if digits_ok body \<and> length (filter is_digit body) \<le> int_max_str_digits
         then Some (sgn * digits_value body) else None)"

definition in_range :: "nat \<Rightarrow> int \<Rightarrow> bool" where
  "in_range n_pages p = (1 \<le> p \<and> p \<le> int n_pages)"

text \<open>
  The pages one comma-separated part adds to \<open>result\<close>; a \<open>ValueError\<close> in either
  branch is caught and adds nothing. \<open>part.split("-", 1)\<close> cuts at the first dash.
\<close>

definition part_pages :: "nat \<Rightarrow> string \<Rightarrow> int list" where
  "part_pages n_pages part0 =
     (let part = strip part0
      in if CHR ''-'' \<in> set part
         then (case py_int (takeWhile (\<lambda>c. c \<noteq> CHR ''-'') part) of
                 None \<Rightarrow> []
               | Some a \<Rightarrow>
                   (case py_int (tl (dropWhile (\<lambda>c. c \<noteq> CHR ''-'') part)) of
                      None \<Rightarrow> []
                    | Some b \<Rightarrow> filter (in_range n_pages) [a..b]))
         else (case py_int part of
                 None \<Rightarrow> []
               | Some p \<Rightarrow> if in_range n_pages p then [p] else []))"

definition parse_page_range :: "string \<Rightarrow> nat \<Rightarrow> int set" where
  "parse_page_range page_range n_pages =
     (let result = concat (map (part_pages n_pages) (split_on CHR '','' page_range))
      in if result \<noteq> [] then set result else {1..int n_pages})"

text \<open>
  The specification's reading of a part, \<open>N\<close> or \<open>A-B\<close> (1-indexed, inclusive): the
  part names page \<open>p\<close> when it is the decimal integer \<open>p\<close>, or when it is \<open>A-B\<close> for two
  decimal integers with \<open>A \<le> p \<le> B\<close>.
\<close>

definition names_page :: "string \<Rightarrow> int \<Rightarrow> bool" where
  "names_page part0 p =
     (let part = strip part0
      in if CHR ''-'' \<in> set part
         then (case (py_int (takeWhile (\<lambda>c. c \<noteq> CHR ''-'') part),
                     py_int (tl (dropWhile (\<lambda>c. c \<noteq> CHR ''-'') part))) of
                 (Some a, Some b) \<Rightarrow> a \<le> p \<and> p \<le> b
               | _ \<Rightarrow> False)
         else py_int part = Some p)"

text \<open>The pages of the document that some part of the range string names.\<close>

definition named_pages :: "string \<Rightarrow> nat \<Rightarrow> int set" where
  "named_pages page_range n_pages =
     {p \<in> {1..int n_pages}. list_ex (\<lambda>part. names_page part p) (split_on CHR '','' page_range)}"

lemma py_int_examples:
  "py_int '' 1_0 '' = Some 10" "py_int ''1__0'' = None" "py_int ''-5'' = Some (- 5)"
  "py_int [] = None" "py_int ''+7'' = Some 7" "py_int ''0012'' = Some 12"
  "py_int ''_1'' = None" "py_int ''1_'' = None" "py_int ''- 3'' = None"
  "py_int [CHR 0xA0, CHR ''3''] = Some 3" "py_int [CHR 0x1C, CHR ''5''] = None"
  "py_int ''abc'' = None" "py_int ''50'' = Some 50"
  by code_simp+

lemma parts_example:
  "concat (map (part_pages 12) (split_on CHR '','' ''1,3-5,10'')) = [1, 3, 4, 5, 10]"
  by code_simp

lemma set_part_pages:
  "set (part_pages n part) = {p. in_range n p \<and> names_page part p}"
  by (cases "py_int (takeWhile (\<lambda>c. c \<noteq> CHR ''-'') (strip part))";
      cases "py_int (tl (dropWhile (\<lambda>c. c \<noteq> CHR ''-'') (strip part)))";
      cases "py_int (strip part)")
    (auto simp: part_pages_def names_page_def Let_def)

lemma set_parts:
  "set (concat (map (part_pages n) parts)) = {p \<in> {1..int n}. list_ex (\<lambda>part. names_page part p) parts}"
  by (auto simp: set_part_pages in_range_def list_ex_iff)

text \<open>
  Claim C9. Page-range parsing maps \<open>"1,3-5,10"\<close> on a 12-page document to exactly
  the page set \<open>{1,3,4,5,10}\<close>; and for every range string in which no part names an
  in-range page number (such as \<open>"abc"\<close>), all pages \<open>{1..total}\<close> are selected. In every
  other case the pages selected are exactly the in-range pages that the parts name.
\<close>

theorem parse_page_range_spec:
  "parse_page_range ''1,3-5,10'' 12 = {1, 3, 4, 5, 10}
   \<and> parse_page_range s n = (if named_pages s n = {} then {1..int n} else named_pages s n)"
proof -
  have "parse_page_range ''1,3-5,10'' 12 = {1, 3, 4, 5, 10}"
    unfolding parse_page_range_def parts_example by (simp add: Let_def)
  moreover have "parse_page_range s n = (if named_pages s n = {} then {1..int n} else named_pages s n)"
    unfolding parse_page_range_def Let_def named_pages_def set_parts [symmetric]
    by simp
  ultimately show ?thesis
    by (rule conjI)
qed

lemma parts_examples:
  "concat (map (part_pages 12) (split_on CHR '','' ''abc'')) = []"
  "concat (map (part_pages 12) (split_on CHR '','' ''50,0,9-7'')) = []"
  "concat (map (part_pages 12) (split_on CHR '','' ''0,3, 11-14 ,x-2'')) = [3, 11, 12]"
  "concat (map (part_pages 12) (split_on CHR '','' [CHR 0xA0, CHR ''3''])) = [3]"
  by code_simp+

lemma named_examples:
  "named_pages ''abc'' 12 = {}" "named_pages ''50,0,9-7'' 12 = {}"
  "named_pages ''0,3, 11-14 ,x-2'' 12 = {3, 11, 12}"
  "named_pages [CHR 0xA0, CHR ''3''] 12 = {3}"
  unfolding named_pages_def set_parts [symmetric] parts_examples by simp_all

theorem parse_page_range_spec_witness:
  "parse_page_range ''abc'' 12 = {1..12}
   \<and> parse_page_range ''50,0,9-7'' 12 = {1..12}
   \<and> parse_page_range ''0,3, 11-14 ,x-2'' 12 = {3, 11, 12}
   \<and> parse_page_range [CHR 0xA0, CHR ''3''] 12 = {3}"
  using parse_page_range_spec [of "''abc''" 12] parse_page_range_spec [of "''50,0,9-7''" 12]
    parse_page_range_spec [of "''0,3, 11-14 ,x-2''" 12]
    parse_page_range_spec [of "[CHR 0xA0, CHR ''3'']" 12]
  by (simp add: named_examples)

section \<open>Entry points (pipeline.py \<open>process_document\<close>, cli.py \<open>main\<close>)\<close>

text \<open>
  \<open>str.lower()\<close> on code points below 256: the ASCII capitals and the Latin-1 capitals
  \<open>0xC0\<close> to \<open>0xDE\<close>, the multiplication sign \<open>0xD7\<close> apart, move up by 32.
\<close>

definition lower_char :: "char \<Rightarrow> char" where
  "lower_char c =
     (let n = (of_char c :: nat)
      in if (65 \<le> n \<and> n \<le> 90) \<or> (192 \<le> n \<and> n \<le> 222 \<and> n \<noteq> 215)
         then char_of (n + 32) else c)"

definition lower :: "string \<Rightarrow> string" where
  "lower s = map lower_char s"


text \<open>
  A raised exception of class \<open>Exception\<close>: its class name as a traceback prints it,
  and its message.
\<close>

datatype py_exception = PyExc (exc_type: string) (exc_msg: string)

















section \<open>Block matcher (merger/block\_matcher.py)\<close>

text \<open>
  A tag dict of the tagger's JSON answer; \<open>None\<close> is an absent key.
\<close>

record tag_d =
  tg_block_index :: "int option"
  tg_block_type :: "string option"
  tg_role :: "string option"
  tg_reading_order :: "int option"
  tg_rhetoric :: "(string \<times> string) list option"
  tg_rhetoric_features :: "(string \<times> real) list option"
  tg_text :: "string option"

definition apply_tag :: "block_d \<Rightarrow> tag_d \<Rightarrow> nat \<Rightarrow> block_d" where
  "apply_tag block tag fallback_order =
     block\<lparr> b_block_type := Some (case tg_block_type tag of None \<Rightarrow> ''paragraph'' | Some v \<Rightarrow> v),
            b_role := Some (case tg_role tag of None \<Rightarrow> ''paragraph'' | Some v \<Rightarrow> v),
            b_reading_order :=
              Some (case tg_reading_order tag of None \<Rightarrow> int fallback_order | Some v \<Rightarrow> v),
            b_rhetoric := tg_rhetoric tag,
            b_rhetoric_features := tg_rhetoric_features tag \<rparr>"

text \<open>The three \<open>setdefault\<close> calls: a key that is there keeps its value.\<close>

definition set_defaults :: "nat \<Rightarrow> block_d \<Rightarrow> block_d" where
  "set_defaults i b =
     b\<lparr> b_block_type := (case b_block_type b of None \<Rightarrow> Some ''paragraph'' | Some v \<Rightarrow> Some v),
        b_role := (case b_role b of None \<Rightarrow> Some ''paragraph'' | Some v \<Rightarrow> Some v),
        b_reading_order := (case b_reading_order b of None \<Rightarrow> Some (int i) | Some v \<Rightarrow> Some v) \<rparr>"

text \<open>
  \<open>SequenceMatcher(None, a, b).ratio()\<close> is Python's library; the matcher is modelled
  for any ratio function \<open>ratio\<close>. The loop of \<open>_find_best_tag\<close> carries \<open>best_score\<close> and
  \<open>best_tag\<close>.
\<close>

fun best_loop ::
    "(string \<Rightarrow> string \<Rightarrow> real) \<Rightarrow> string \<Rightarrow> real \<Rightarrow> tag_d option \<Rightarrow> tag_d list
     \<Rightarrow> real \<times> tag_d option" where
  "best_loop ratio block_text best_score best_tag [] = (best_score, best_tag)"
| "best_loop ratio block_text best_score best_tag (tag # tags) =
     (case tg_text tag of
        None \<Rightarrow> best_loop ratio block_text best_score best_tag tags
      | Some tag_text \<Rightarrow>
          if tag_text = [] then best_loop ratio block_text best_score best_tag tags
          else (let score = ratio (take 200 block_text) (take 200 tag_text)
                in if best_score < score
                   then best_loop ratio block_text score (Some tag) tags
                   else best_loop ratio block_text best_score best_tag tags))"

definition find_best_tag ::
    "(string \<Rightarrow> string \<Rightarrow> real) \<Rightarrow> block_d \<Rightarrow> tag_d list \<Rightarrow> tag_d option" where
  "find_best_tag ratio block tags =
     (if b_text block = [] then None
      else (case best_loop ratio (b_text block) 0 None tags of
              (best_score, best_tag) \<Rightarrow> if 4 / 10 < best_score then best_tag else None))"

text \<open>\<open>index_map\<close>: the last tag carrying a given \<open>block_index\<close>.\<close>

definition index_map :: "tag_d list \<Rightarrow> int \<Rightarrow> tag_d option" where
  "index_map tags i = find (\<lambda>t. tg_block_index t = Some i) (rev tags)"

definition index_pass :: "tag_d list \<Rightarrow> block_d list \<Rightarrow> block_d list" where
  "index_pass tags blocks =
     map (\<lambda>(i, b). case index_map tags (int i) of None \<Rightarrow> b | Some t \<Rightarrow> apply_tag b t i)
       (enumerate 0 blocks)"

definition matched :: "tag_d list \<Rightarrow> block_d list \<Rightarrow> nat list" where
  "matched tags blocks = filter (\<lambda>i. index_map tags (int i) \<noteq> None) [0..<length blocks]"

definition unmatched_blocks :: "tag_d list \<Rightarrow> block_d list \<Rightarrow> nat list" where
  "unmatched_blocks tags blocks = filter (\<lambda>i. i \<notin> set (matched tags blocks)) [0..<length blocks]"

definition unmatched_tags :: "tag_d list \<Rightarrow> block_d list \<Rightarrow> tag_d list" where
  "unmatched_tags tags blocks =
     filter (\<lambda>t. case tg_block_index t of
                    None \<Rightarrow> True
                  | Some k \<Rightarrow> \<not> (0 \<le> k \<and> nat k \<in> set (matched tags blocks))) tags"

text \<open>
  The fuzzy pass over the unmatched blocks, given by their indices; the blocks are
  updated in place and a winning tag is removed from the list of remaining tags.
\<close>

fun fuzzy_loop ::
    "(string \<Rightarrow> string \<Rightarrow> real) \<Rightarrow> nat list \<Rightarrow> block_d list \<Rightarrow> tag_d list
     \<Rightarrow> block_d list \<times> tag_d list" where
  "fuzzy_loop ratio [] blocks tags = (blocks, tags)"
| "fuzzy_loop ratio (i # is) blocks tags =
     (case find_best_tag ratio (blocks ! i) tags of
        Some best_tag \<Rightarrow>
          fuzzy_loop ratio is (blocks[i := apply_tag (blocks ! i) best_tag i])
            (remove1 best_tag tags)
      | None \<Rightarrow> fuzzy_loop ratio is (blocks[i := set_defaults i (blocks ! i)]) tags)"

definition match_blocks_to_tags ::
    "(string \<Rightarrow> string \<Rightarrow> real) \<Rightarrow> block_d list \<Rightarrow> tag_d list \<Rightarrow> block_d list" where
  "match_blocks_to_tags ratio blocks tags =
     (if tags = [] then map (\<lambda>(i, b). set_defaults i b) (enumerate 0 blocks)
      else (let blocks1 = index_pass tags blocks;
                ub = unmatched_blocks tags blocks;
                ut = unmatched_tags tags blocks;
                blocks2 = (if ub \<noteq> [] \<and> ut \<noteq> [] then fst (fuzzy_loop ratio ub blocks1 ut)
                           else blocks1)
            in map (\<lambda>(i, b). set_defaults i b) (enumerate 0 blocks2)))"




definition score :: "(string \<Rightarrow> string \<Rightarrow> real) \<Rightarrow> block_d \<Rightarrow> tag_d \<Rightarrow> real" where
  "score ratio b t =
     (case tg_text t of None \<Rightarrow> 0 | Some s \<Rightarrow> ratio (take 200 (b_text b)) (take 200 s))"


subsection \<open>The fuzzy pass\<close>





lemma text_apply_tag [simp]: "b_text (apply_tag b t i) = b_text b"
  by (simp add: apply_tag_def)

lemma text_set_defaults [simp]: "b_text (set_defaults i b) = b_text b"
  by (simp add: set_defaults_def)


lemma fuzzy_loop_length: "length (fst (fuzzy_loop r is bs ts)) = length bs"
  by (induction "is" arbitrary: bs ts) (auto split: option.splits)





lemma index_pass_length: "length (index_pass tags blocks) = length blocks"
  by (simp add: index_pass_def)







lemma match_length: "length (match_blocks_to_tags r blocks tags) = length blocks"
  by (simp add: match_blocks_to_tags_def Let_def fuzzy_loop_length index_pass_length)













section \<open>Schema v3.0 models (schema.py)\<close>

text \<open>
  The Pydantic models, as records; an \<open>Optional\<close> field is an option. The enums are
  datatypes. The constraints of the fields (\<open>ge\<close>, \<open>gt\<close>) are checked where the
  assembler constructs a model: a violation raises \<open>ValidationError\<close>.
\<close>

datatype block_type =
  BT_heading | BT_paragraph | BT_list_item | BT_table | BT_figure | BT_caption
  | BT_header | BT_footer | BT_page_number | BT_code_block

datatype role_type =
  RT_title | RT_section_title | RT_subsection_title | RT_paragraph | RT_list_item
  | RT_table | RT_figure | RT_caption | RT_header | RT_footer

datatype weight_type = W_normal | W_bold

datatype align_type = A_left | A_center | A_right | A_justify

datatype relation_type = R_next | R_parent | R_child | R_caption_of

datatype source_type = S_pdf | S_docx | S_html | S_image

record rhetoric =
  rh_tone :: "string option"
  rh_voice :: "string option"
  rh_modality :: "string option"
  rh_tense :: "string option"
  rh_domain :: "string option"

record rhetoric_features =
  rf_avg_sentence_length :: "real option"
  rf_modal_density :: "real option"
  rf_passive_ratio :: "real option"
  rf_legal_term_density :: "real option"

record style =
  st_font_family :: "string option"
  st_size :: "real option"
  st_weight :: "weight_type option"
  st_italic :: "bool option"
  st_underline :: "bool option"
  st_color :: "string option"
  st_align :: "align_type option"

record document_meta =
  dm_document_id :: string
  dm_schema_version :: string
  dm_source :: source_type
  dm_page_count :: "int option"

record page =
  pg_page_number :: int
  pg_width :: real
  pg_height :: real
  pg_rotation :: int

record block =
  bl_id :: string
  bl_type :: block_type
  bl_role :: "role_type option"
  bl_page :: int
  bl_bbox :: bbox
  bl_bbox_norm :: "bbox option"
  bl_reading_order :: int
  bl_z_index :: int
  bl_parent :: "string option"
  bl_children :: "string list option"
  bl_text :: "string option"
  bl_style_id :: "string option"
  bl_html :: "string option"
  bl_html_template :: "string option"
  bl_rhetoric :: "rhetoric option"
  bl_rhetoric_features :: "rhetoric_features option"

record span =
  sp_id :: string
  sp_block_id :: string
  sp_text :: string
  sp_bbox :: bbox
  sp_bbox_norm :: "bbox option"
  sp_style_id :: "string option"

record token =
  tk_text :: string
  tk_bbox :: bbox
  tk_bbox_norm :: "bbox option"
  tk_block_id :: string
  tk_span_id :: "string option"

record table_cell =
  tc_row :: int
  tc_col :: int
  tc_row_span :: int
  tc_col_span :: int
  tc_text :: string
  tc_bbox :: bbox
  tc_bbox_norm :: "bbox option"

record table =
  tb_id :: string
  tb_page :: int
  tb_rows :: int
  tb_cols :: int
  tb_bbox :: "bbox option"
  tb_cells :: "table_cell list"

record edge =
  e_from :: string
  e_to :: string
  e_relation :: relation_type

record layout_document =
  ld_document :: document_meta
  ld_pages :: "page list"
  ld_blocks :: "block list"
  ld_spans :: "span list option"
  ld_tokens :: "token list option"
  ld_tables :: "table list option"
  ld_styles :: "(string \<times> style) list option"
  ld_reading_graph :: "edge list option"

definition validation_error :: "string \<Rightarrow> py_exception" where
  "validation_error field = PyExc ''ValidationError'' field"

section \<open>Style normalizer (styles/style\_normalizer.py)\<close>

text \<open>The style dict \<open>style_obj\<close> that \<open>normalize_styles\<close> builds for a block.\<close>

record style_d =
  sd_font_family :: string
  sd_size :: real
  sd_weight :: string
  sd_italic :: bool
  sd_underline :: bool
  sd_color :: string
  sd_align :: string

text \<open>\<open>sub in s\<close> for strings.\<close>

fun contains :: "string \<Rightarrow> string \<Rightarrow> bool" where
  "contains sub [] = (sub = [])"
| "contains sub (c # cs) = (take (length sub) (c # cs) = sub \<or> contains sub cs)"

definition clean_font_name :: "string \<Rightarrow> string" where
  "clean_font_name fontname =
     (if CHR ''+'' \<in> set fontname then tl (dropWhile (\<lambda>c. c \<noteq> CHR ''+'') fontname)
      else fontname)"

definition style_of_block :: "block_d \<Rightarrow> style_d" where
  "style_of_block block =
     (let font = b_fontname block;
          fn_lower = lower font
      in \<lparr> sd_font_family = clean_font_name font,
           sd_size = py_round (b_size block) 1,
           sd_weight = (if contains ''bold'' fn_lower then ''bold'' else ''normal''),
           sd_italic = (contains ''italic'' fn_lower \<or> contains ''oblique'' fn_lower),
           sd_underline = False,
           sd_color = b_color block,
           sd_align = ''left'' \<rparr>)"

text \<open>
  \<open>_hash_style\<close> formats family, size, weight, italic and colour into one string and
  takes the first 12 hex digits of its SHA-256. Formatting and hashing are the
  library's; they are one parameter \<open>H\<close> of the five values.
\<close>

type_synonym style_hash = "string \<times> real \<times> string \<times> bool \<times> string \<Rightarrow> string"

definition hash_style :: "style_hash \<Rightarrow> style_d \<Rightarrow> string" where
  "hash_style H s = H (sd_font_family s, sd_size s, sd_weight s, sd_italic s, sd_color s)"

text \<open>
  The loop of \<open>normalize_styles\<close>: each block gets its \<open>style_id\<close>, and a style is
  entered into the dict \<open>styles\<close> (kept in insertion order) under an id that is not
  there yet.
\<close>

fun styles_loop ::
    "style_hash \<Rightarrow> (string \<times> style_d) list \<Rightarrow> block_d list
     \<Rightarrow> block_d list \<times> (string \<times> style_d) list" where
  "styles_loop H styles [] = ([], styles)"
| "styles_loop H styles (block # blocks) =
     (let style_obj = style_of_block block;
          style_id = hash_style H style_obj;
          block' = block\<lparr> b_style_id := Some style_id \<rparr>;
          styles' = (if style_id \<in> fst ` set styles then styles
                     else styles @ [(style_id, style_obj)])
      in case styles_loop H styles' blocks of
           (blocks', styles'') \<Rightarrow> (block' # blocks', styles''))"

definition normalize_styles ::
    "style_hash \<Rightarrow> block_d list \<Rightarrow> block_d list \<times> (string \<times> style_d) list" where
  "normalize_styles H blocks = styles_loop H [] blocks"

section \<open>Schema assembler (merger/schema\_assembler.py)\<close>

definition normalize_bbox :: "bbox \<Rightarrow> real \<Rightarrow> real \<Rightarrow> bbox" where
  "normalize_bbox bb page_w page_h =
     (case bb of (x0, y0, x1, y1) \<Rightarrow>
        if page_w \<le> 0 \<or> page_h \<le> 0 then (0, 0, 0, 0)
        else (py_round (x0 / page_w) 6, py_round (y0 / page_h) 6,
              py_round (x1 / page_w) 6, py_round (y1 / page_h) 6))"

definition block_type_values :: "(string \<times> block_type) list" where
  "block_type_values =
     [(''heading'', BT_heading), (''paragraph'', BT_paragraph), (''list_item'', BT_list_item),
      (''table'', BT_table), (''figure'', BT_figure), (''caption'', BT_caption),
      (''header'', BT_header), (''footer'', BT_footer), (''page_number'', BT_page_number),
      (''code_block'', BT_code_block)]"

definition role_type_values :: "(string \<times> role_type) list" where
  "role_type_values =
     [(''title'', RT_title), (''section_title'', RT_section_title),
      (''subsection_title'', RT_subsection_title), (''paragraph'', RT_paragraph),
      (''list_item'', RT_list_item), (''table'', RT_table), (''figure'', RT_figure),
      (''caption'', RT_caption), (''header'', RT_header), (''footer'', RT_footer)]"

definition safe_block_type :: "string \<Rightarrow> block_type" where
  "safe_block_type val = (case map_of block_type_values val of Some t \<Rightarrow> t | None \<Rightarrow> BT_paragraph)"

definition safe_role :: "string \<Rightarrow> role_type" where
  "safe_role val = (case map_of role_type_values val of Some r \<Rightarrow> r | None \<Rightarrow> RT_paragraph)"

definition safe_weight :: "string \<Rightarrow> weight_type option" where
  "safe_weight val =
     (if val = ''normal'' then Some W_normal else if val = ''bold'' then Some W_bold else None)"

definition safe_align :: "string \<Rightarrow> align_type option" where
  "safe_align val =
     (if val = ''left'' then Some A_left else if val = ''center'' then Some A_center
      else if val = ''right'' then Some A_right else if val = ''justify'' then Some A_justify
      else None)"

definition html_tag_for_type :: "block_type \<Rightarrow> string" where
  "html_tag_for_type t =
     (case t of
        BT_heading \<Rightarrow> ''h2'' | BT_paragraph \<Rightarrow> ''p'' | BT_list_item \<Rightarrow> ''li''
      | BT_table \<Rightarrow> ''table'' | BT_figure \<Rightarrow> ''figure'' | BT_caption \<Rightarrow> ''figcaption''
      | BT_header \<Rightarrow> ''header'' | BT_footer \<Rightarrow> ''footer'' | BT_page_number \<Rightarrow> ''span''
      | BT_code_block \<Rightarrow> ''pre'')"

text \<open>
  \<open>_build_rhetoric\<close>: a value outside its enum makes the model's constructor raise,
  and the function returns \<open>None\<close>.
\<close>

definition enum_ok :: "string list \<Rightarrow> string option \<Rightarrow> bool" where
  "enum_ok allowed v = (case v of None \<Rightarrow> True | Some s \<Rightarrow> s \<in> set allowed)"

definition build_rhetoric :: "(string \<times> string) list \<Rightarrow> rhetoric option" where
  "build_rhetoric raw =
     (let tone = map_of raw ''tone''; voice = map_of raw ''voice'';
          modality = map_of raw ''modality''; tense = map_of raw ''tense'';
          domain = map_of raw ''domain''
      in if enum_ok [''formal'', ''neutral'', ''conversational'', ''legal'', ''compliance'',
                     ''academic''] tone
            \<and> enum_ok [''active'', ''passive'', ''mixed''] voice
            \<and> enum_ok [''mandatory'', ''advisory'', ''descriptive''] modality
            \<and> enum_ok [''present'', ''past'', ''future'', ''mixed''] tense
            \<and> enum_ok [''legal'', ''banking'', ''technical'', ''general''] domain
         then Some \<lparr> rh_tone = tone, rh_voice = voice, rh_modality = modality,
                      rh_tense = tense, rh_domain = domain \<rparr>
         else None)"

definition build_rhetoric_features :: "(string \<times> real) list \<Rightarrow> rhetoric_features option" where
  "build_rhetoric_features raw =
     Some \<lparr> rf_avg_sentence_length = map_of raw ''avg_sentence_length'',
            rf_modal_density = map_of raw ''modal_density'',
            rf_passive_ratio = map_of raw ''passive_ratio'',
            rf_legal_term_density = map_of raw ''legal_term_density'' \<rparr>"

definition convert_style :: "style_d \<Rightarrow> style" where
  "convert_style sdict =
     \<lparr> st_font_family = Some (sd_font_family sdict),
       st_size = Some (sd_size sdict),
       st_weight = safe_weight (sd_weight sdict),
       st_italic = Some (sd_italic sdict),
       st_underline = Some (sd_underline sdict),
       st_color = Some (sd_color sdict),
       st_align = safe_align (sd_align sdict) \<rparr>"

text \<open>A page dict of the extractors.\<close>

record page_d =
  pd_page_number :: int
  pd_width :: real
  pd_height :: real
  pd_chars :: "pchar list"

text \<open>
  The accumulators of \<open>assemble_document\<close>: the six lists and \<open>prev_block_id\<close>.
\<close>

record asm_state =
  as_pages :: "page list"
  as_blocks :: "block list"
  as_spans :: "span list"
  as_tokens :: "token list"
  as_tables :: "table list"
  as_edges :: "edge list"
  as_prev :: "string option"

definition next_edge :: "string \<Rightarrow> string \<Rightarrow> edge" where
  "next_edge a b = \<lparr> e_from = a, e_to = b, e_relation = R_next \<rparr>"

text \<open>\<open>if prev_block_id:\<close> holds for a string that is there and not empty.\<close>

definition chain_edge :: "string option \<Rightarrow> string \<Rightarrow> edge list" where
  "chain_edge prev block_id =
     (case prev of None \<Rightarrow> [] | Some p \<Rightarrow> if p \<noteq> [] then [next_edge p block_id] else [])"

definition reading_order_key :: "block_d \<Rightarrow> int" where
  "reading_order_key b = (case b_reading_order b of None \<Rightarrow> 0 | Some r \<Rightarrow> r)"

definition block_bbox :: "block_d \<Rightarrow> bbox" where
  "block_bbox bd = (b_x0 bd, b_y0 bd, b_x1 bd, b_y1 bd)"

definition word_bbox :: "word \<Rightarrow> bbox" where
  "word_bbox w = (w_x0 w, w_y0 w, w_x1 w, w_y1 w)"

text \<open>
  \<open>Block(...)\<close> for a text block: the field values, then the model's checks
  \<open>page >= 1\<close> and \<open>reading_order >= 0\<close>.
\<close>

definition block_of :: "int \<Rightarrow> real \<Rightarrow> real \<Rightarrow> block_d \<Rightarrow> block" where
  "block_of page_num page_w page_h bd =
     (let bbox = block_bbox bd;
          btype = safe_block_type (case b_block_type bd of None \<Rightarrow> ''paragraph'' | Some v \<Rightarrow> v);
          role = safe_role (case b_role bd of None \<Rightarrow> ''paragraph'' | Some v \<Rightarrow> v);
          txt = b_text bd;
          rhet = (case b_rhetoric bd of
                    None \<Rightarrow> None
                  | Some raw \<Rightarrow> if raw = [] then None else build_rhetoric raw);
          feats = (case b_rhetoric_features bd of
                     None \<Rightarrow> None
                   | Some raw \<Rightarrow> if raw = [] then None else build_rhetoric_features raw);
          html_tag = html_tag_for_type btype
      in \<lparr> bl_id = b_id bd, bl_type = btype, bl_role = Some role, bl_page = page_num,
           bl_bbox = bbox, bl_bbox_norm = Some (normalize_bbox bbox page_w page_h),
           bl_reading_order = reading_order_key bd, bl_z_index = 0,
           bl_parent = None, bl_children = None, bl_text = Some txt,
           bl_style_id = b_style_id bd,
           bl_html = Some (''<'' @ html_tag @ ''>'' @ txt @ ''</'' @ html_tag @ ''>''),
           bl_html_template = Some (''<'' @ html_tag @ ''>{{text}}</'' @ html_tag @ ''>''),
           bl_rhetoric = rhet, bl_rhetoric_features = feats \<rparr>)"

definition make_block :: "int \<Rightarrow> real \<Rightarrow> real \<Rightarrow> block_d \<Rightarrow> py_exception + block" where
  "make_block page_num page_w page_h bd =
     (if page_num < 1 then Inl (validation_error ''page'')
      else if reading_order_key bd < 0 then Inl (validation_error ''reading_order'')
      else Inr (block_of page_num page_w page_h bd))"

definition make_span :: "real \<Rightarrow> real \<Rightarrow> block_d \<Rightarrow> span" where
  "make_span page_w page_h bd =
     \<lparr> sp_id = ''s-'' @ b_id bd, sp_block_id = b_id bd, sp_text = b_text bd,
       sp_bbox = block_bbox bd,
       sp_bbox_norm = Some (normalize_bbox (block_bbox bd) page_w page_h),
       sp_style_id = b_style_id bd \<rparr>"

definition make_token :: "real \<Rightarrow> real \<Rightarrow> string \<Rightarrow> word \<Rightarrow> token" where
  "make_token page_w page_h block_id w =
     \<lparr> tk_text = w_text w, tk_bbox = word_bbox w,
       tk_bbox_norm = Some (normalize_bbox (word_bbox w) page_w page_h),
       tk_block_id = block_id, tk_span_id = Some (''s-'' @ block_id) \<rparr>"

text \<open>The body of the loop over the text blocks of a page.\<close>

definition add_text_block ::
    "int \<Rightarrow> real \<Rightarrow> real \<Rightarrow> asm_state \<Rightarrow> block_d \<Rightarrow> py_exception + asm_state" where
  "add_text_block page_num page_w page_h st bd =
     (case make_block page_num page_w page_h bd of
        Inl e \<Rightarrow> Inl e
      | Inr blk \<Rightarrow>
          Inr (st\<lparr> as_blocks := as_blocks st @ [blk],
                   as_spans := as_spans st @ [make_span page_w page_h bd],
                   as_tokens := as_tokens st @ map (make_token page_w page_h (b_id bd)) (b_words bd),
                   as_edges := as_edges st @ chain_edge (as_prev st) (b_id bd),
                   as_prev := Some (b_id bd) \<rparr>))"

definition cell_ok :: "cell_d \<Rightarrow> bool" where
  "cell_ok c = (0 \<le> cd_row c \<and> 0 \<le> cd_col c \<and> 1 \<le> cd_row_span c \<and> 1 \<le> cd_col_span c)"

definition make_cell :: "real \<Rightarrow> real \<Rightarrow> cell_d \<Rightarrow> table_cell" where
  "make_cell page_w page_h c =
     \<lparr> tc_row = cd_row c, tc_col = cd_col c, tc_row_span = cd_row_span c,
       tc_col_span = cd_col_span c, tc_text = cd_text c, tc_bbox = cd_bbox c,
       tc_bbox_norm = Some (normalize_bbox (cd_bbox c) page_w page_h) \<rparr>"

definition table_of :: "int \<Rightarrow> real \<Rightarrow> real \<Rightarrow> table_d \<Rightarrow> table" where
  "table_of page_num page_w page_h td =
     \<lparr> tb_id = t_id td, tb_page = page_num, tb_rows = t_rows td, tb_cols = t_cols td,
       tb_bbox = Some (t_bbox td), tb_cells = map (make_cell page_w page_h) (t_cells td) \<rparr>"

definition table_block :: "int \<Rightarrow> real \<Rightarrow> real \<Rightarrow> nat \<Rightarrow> table_d \<Rightarrow> block" where
  "table_block page_num page_w page_h n_blocks td =
     \<lparr> bl_id = t_id td, bl_type = BT_table, bl_role = Some RT_table, bl_page = page_num,
       bl_bbox = t_bbox td, bl_bbox_norm = Some (normalize_bbox (t_bbox td) page_w page_h),
       bl_reading_order = int n_blocks, bl_z_index = 0, bl_parent = None,
       bl_children = None, bl_text = Some ''[TABLE]'', bl_style_id = None, bl_html = None,
       bl_html_template = None, bl_rhetoric = None, bl_rhetoric_features = None \<rparr>"

text \<open>
  The body of the loop over the tables of a page. \<open>TableCell\<close> and \<open>Table\<close> check their
  fields. The table's bbox is a 4-tuple, so \<open>if tbl_bbox:\<close> holds and the synthetic
  block is always added, with \<open>reading_order = len(all_blocks)\<close>.
\<close>

definition add_table ::
    "int \<Rightarrow> real \<Rightarrow> real \<Rightarrow> asm_state \<Rightarrow> table_d \<Rightarrow> py_exception + asm_state" where
  "add_table page_num page_w page_h st td =
     (if \<not> list_all cell_ok (t_cells td) then Inl (validation_error ''cells'')
      else if page_num < 1 \<or> t_rows td < 1 \<or> t_cols td < 1 then Inl (validation_error ''table'')
      else Inr (st\<lparr> as_tables := as_tables st @ [table_of page_num page_w page_h td],
                     as_blocks := as_blocks st @
                       [table_block page_num page_w page_h (length (as_blocks st)) td],
                     as_edges := as_edges st @ chain_edge (as_prev st) (t_id td),
                     as_prev := Some (t_id td) \<rparr>))"

text \<open>A loop whose body may raise: the first exception ends it.\<close>

fun fold_err :: "('s \<Rightarrow> 'a \<Rightarrow> 'e + 's) \<Rightarrow> 's \<Rightarrow> 'a list \<Rightarrow> 'e + 's" where
  "fold_err f s [] = Inr s"
| "fold_err f s (x # xs) = (case f s x of Inl e \<Rightarrow> Inl e | Inr s' \<Rightarrow> fold_err f s' xs)"

text \<open>\<open>d.get(k, [])\<close> on a dict of lists, the dict kept as its items in insertion order.\<close>

definition dict_get :: "(int \<times> 'a list) list \<Rightarrow> int \<Rightarrow> 'a list" where
  "dict_get d k = (case map_of d k of None \<Rightarrow> [] | Some v \<Rightarrow> v)"

text \<open>The body of the loop over \<open>pages_data\<close>; \<open>Page\<close> checks its fields.\<close>

definition add_page ::
    "(int \<times> block_d list) list \<Rightarrow> (int \<times> table_d list) list \<Rightarrow> asm_state \<Rightarrow> page_d
     \<Rightarrow> py_exception + asm_state" where
  "add_page merged_blocks tables_by_page st page_data =
     (let page_num = pd_page_number page_data;
          page_w = pd_width page_data;
          page_h = pd_height page_data;
          page_idx = page_num - 1
      in if \<not> (1 \<le> page_num \<and> 0 < page_w \<and> 0 < page_h) then Inl (validation_error ''page'')
         else (let st1 = st\<lparr> as_pages := as_pages st @
                              [\<lparr> pg_page_number = page_num, pg_width = page_w,
                                 pg_height = page_h, pg_rotation = 0 \<rparr>] \<rparr>;
                   blocks = sort_key reading_order_key (dict_get merged_blocks page_idx)
               in case fold_err (add_text_block page_num page_w page_h) st1 blocks of
                    Inl e \<Rightarrow> Inl e
                  | Inr st2 \<Rightarrow>
                      fold_err (add_table page_num page_w page_h) st2
                        (dict_get tables_by_page page_idx)))"

definition opt_list :: "'a list \<Rightarrow> 'a list option" where
  "opt_list xs = (if xs = [] then None else Some xs)"

definition empty_state :: asm_state where
  "empty_state = \<lparr> as_pages = [], as_blocks = [], as_spans = [], as_tokens = [],
                    as_tables = [], as_edges = [], as_prev = None \<rparr>"

definition assemble_document ::
    "string \<Rightarrow> page_d list \<Rightarrow> (int \<times> block_d list) list \<Rightarrow> (int \<times> table_d list) list
     \<Rightarrow> (string \<times> style_d) list \<Rightarrow> source_type \<Rightarrow> py_exception + layout_document" where
  "assemble_document doc_id pages_data merged_blocks tables_by_page styles source =
     (let pydantic_styles = map (\<lambda>(sid, sdict). (sid, convert_style sdict)) styles
      in case fold_err (add_page merged_blocks tables_by_page) empty_state pages_data of
           Inl e \<Rightarrow> Inl e
         | Inr st \<Rightarrow>
             Inr \<lparr> ld_document =
                     \<lparr> dm_document_id = doc_id, dm_schema_version = ''3.0'',
                        dm_source = source, dm_page_count = Some (int (length (as_pages st))) \<rparr>,
                   ld_pages = as_pages st,
                   ld_blocks = as_blocks st,
                   ld_spans = opt_list (as_spans st),
                   ld_tokens = opt_list (as_tokens st),
                   ld_tables = opt_list (as_tables st),
                   ld_styles = opt_list pydantic_styles,
                   ld_reading_graph = opt_list (as_edges st) \<rparr>)"

text \<open>The lists behind the optional fields of a document.\<close>

definition of_opt :: "'a list option \<Rightarrow> 'a list" where
  "of_opt v = (case v of None \<Rightarrow> [] | Some xs \<Rightarrow> xs)"

lemma of_opt_opt_list [simp]: "of_opt (opt_list xs) = xs"
  by (simp add: of_opt_def opt_list_def)

section \<open>Style normalisation and assembly, the common tail of the pipelines\<close>

text \<open>
  \<open>normalize_styles\<close> is run over all blocks of \<open>merged_blocks\<close>, page after page, and
  sets \<open>style_id\<close> on the block dicts in place; \<open>regroup\<close> reads the updated blocks
  back through the lists of \<open>merged_blocks\<close>.
\<close>

fun regroup :: "(int \<times> 'a list) list \<Rightarrow> 'b list \<Rightarrow> (int \<times> 'b list) list" where
  "regroup [] flat = []"
| "regroup ((k, bs) # rest) flat =
     (k, take (length bs) flat) # regroup rest (drop (length bs) flat)"

definition normalize_all ::
    "style_hash \<Rightarrow> (int \<times> block_d list) list
     \<Rightarrow> (int \<times> block_d list) list \<times> (string \<times> style_d) list" where
  "normalize_all H merged_blocks =
     (case normalize_styles H (concat (map snd merged_blocks)) of
        (blocks, global_styles) \<Rightarrow> (regroup merged_blocks blocks, global_styles))"

definition normalize_and_assemble ::
    "style_hash \<Rightarrow> string \<Rightarrow> page_d list \<Rightarrow> (int \<times> block_d list) list
     \<Rightarrow> (int \<times> table_d list) list \<Rightarrow> source_type \<Rightarrow> py_exception + layout_document" where
  "normalize_and_assemble H doc_id pages_data merged_blocks tables_by_page source =
     (case normalize_all H merged_blocks of
        (merged, global_styles) \<Rightarrow>
          assemble_document doc_id pages_data merged tables_by_page global_styles source)"

section \<open>What the assembler emits\<close>

text \<open>
  The edges that the \<open>prev_block_id\<close> bookkeeping produces for a sequence of block ids,
  and the blocks of a document: page after page, the page's text blocks sorted by
  \<open>reading_order\<close>, then one synthetic block per table of the page, numbered by the
  count of blocks emitted before it.
\<close>

fun chain :: "string list \<Rightarrow> edge list" where
  "chain (a # b # rest) = chain_edge (Some a) b @ chain (b # rest)"
| "chain [a] = []"
| "chain [] = []"

definition page_text_blocks :: "(int \<times> block_d list) list \<Rightarrow> page_d \<Rightarrow> block_d list" where
  "page_text_blocks merged_blocks p =
     sort_key reading_order_key (dict_get merged_blocks (pd_page_number p - 1))"

definition page_tables :: "(int \<times> table_d list) list \<Rightarrow> page_d \<Rightarrow> table_d list" where
  "page_tables tables_by_page p = dict_get tables_by_page (pd_page_number p - 1)"

definition page_blocks ::
    "(int \<times> block_d list) list \<Rightarrow> (int \<times> table_d list) list \<Rightarrow> nat \<Rightarrow> page_d \<Rightarrow> block list" where
  "page_blocks merged_blocks tables_by_page n_before p =
     (let text_blocks = map (block_of (pd_page_number p) (pd_width p) (pd_height p))
                          (page_text_blocks merged_blocks p)
      in text_blocks @
         map (\<lambda>(j, td). table_block (pd_page_number p) (pd_width p) (pd_height p) j td)
           (enumerate (n_before + length text_blocks) (page_tables tables_by_page p)))"

fun emit_blocks ::
    "(int \<times> block_d list) list \<Rightarrow> (int \<times> table_d list) list \<Rightarrow> nat \<Rightarrow> page_d list
     \<Rightarrow> block list" where
  "emit_blocks merged_blocks tables_by_page n_before [] = []"
| "emit_blocks merged_blocks tables_by_page n_before (p # ps) =
     (let bs = page_blocks merged_blocks tables_by_page n_before p
      in bs @ emit_blocks merged_blocks tables_by_page (n_before + length bs) ps)"

lemma fold_err_inv:
  assumes "fold_err f s xs = Inr s'" and "P s"
    and "\<And>s x s'. x \<in> set xs \<Longrightarrow> P s \<Longrightarrow> f s x = Inr s' \<Longrightarrow> P s'"
  shows "P s'"
  using assms
proof (induction xs arbitrary: s)
  case Nil
  then show ?case by simp
next
  case (Cons x xs)
  from Cons.prems(1) obtain s1 where s1: "f s x = Inr s1" "fold_err f s1 xs = Inr s'"
    by (auto split: sum.splits)
  have p1: "P s1" using Cons.prems(3) [of x s s1] Cons.prems(2) s1(1) by simp
  show ?case
  proof (rule Cons.IH [OF s1(2) p1])
    fix t y t' assume "y \<in> set xs" "P t" "f t y = Inr t'"
    then show "P t'" using Cons.prems(3) [of y t t'] by simp
  qed
qed

lemma chain_snoc:
  "chain (ids @ [x]) = chain ids @ (if ids = [] then [] else chain_edge (Some (last ids)) x)"
  by (induction ids rule: chain.induct) simp_all

lemma chain_nonempty:
  "\<forall>i \<in> set ids. i \<noteq> [] \<Longrightarrow>
   chain ids = map (\<lambda>(a, b). next_edge a b) (zip ids (tl ids))"
  by (induction ids rule: chain.induct) (simp_all add: chain_edge_def)

definition edges_inv :: "asm_state \<Rightarrow> bool" where
  "edges_inv st =
     (as_edges st = chain (map bl_id (as_blocks st))
      \<and> as_prev st = (if as_blocks st = [] then None else Some (bl_id (last (as_blocks st)))))"

lemma bl_id_block_of [simp]: "bl_id (block_of pn w h bd) = b_id bd"
  by (simp add: block_of_def Let_def)

lemma bl_id_table_block [simp]: "bl_id (table_block pn w h n td) = t_id td"
  by (simp add: table_block_def)

lemma add_text_block_Inr:
  assumes "add_text_block pn w h st bd = Inr st'"
  shows "st' = st\<lparr> as_blocks := as_blocks st @ [block_of pn w h bd],
                   as_spans := as_spans st @ [make_span w h bd],
                   as_tokens := as_tokens st @ map (make_token w h (b_id bd)) (b_words bd),
                   as_edges := as_edges st @ chain_edge (as_prev st) (b_id bd),
                   as_prev := Some (b_id bd) \<rparr>"
  using assms by (auto simp: add_text_block_def make_block_def split: if_splits)

lemma add_table_Inr:
  assumes "add_table pn w h st td = Inr st'"
  shows "st' = st\<lparr> as_tables := as_tables st @ [table_of pn w h td],
                   as_blocks := as_blocks st @ [table_block pn w h (length (as_blocks st)) td],
                   as_edges := as_edges st @ chain_edge (as_prev st) (t_id td),
                   as_prev := Some (t_id td) \<rparr>"
  using assms by (auto simp: add_table_def split: if_splits)

lemma edges_inv_text:
  "edges_inv st \<Longrightarrow> add_text_block pn w h st bd = Inr st' \<Longrightarrow> edges_inv st'"
  by (drule add_text_block_Inr) (auto simp: edges_inv_def chain_snoc chain_edge_def last_map)

lemma edges_inv_table:
  "edges_inv st \<Longrightarrow> add_table pn w h st td = Inr st' \<Longrightarrow> edges_inv st'"
  by (drule add_table_Inr) (auto simp: edges_inv_def chain_snoc chain_edge_def last_map)

lemma text_loop_blocks:
  "fold_err (add_text_block pn w h) st bds = Inr st' \<Longrightarrow>
   as_blocks st' = as_blocks st @ map (block_of pn w h) bds
   \<and> as_spans st' = as_spans st @ map (make_span w h) bds
   \<and> as_tokens st' = as_tokens st
        @ concat (map (\<lambda>bd. map (make_token w h (b_id bd)) (b_words bd)) bds)
   \<and> as_tables st' = as_tables st \<and> as_pages st' = as_pages st"
proof (induction bds arbitrary: st)
  case Nil
  then show ?case by simp
next
  case (Cons bd bds)
  from Cons.prems obtain s1 where s1: "add_text_block pn w h st bd = Inr s1"
      "fold_err (add_text_block pn w h) s1 bds = Inr st'"
    by (auto split: sum.splits)
  from Cons.IH [OF s1(2)] add_text_block_Inr [OF s1(1)] show ?case
    by simp
qed

lemma table_loop_blocks:
  "fold_err (add_table pn w h) st tds = Inr st' \<Longrightarrow>
   as_blocks st' = as_blocks st
        @ map (\<lambda>(j, td). table_block pn w h j td) (enumerate (length (as_blocks st)) tds)
   \<and> as_tables st' = as_tables st @ map (table_of pn w h) tds
   \<and> as_spans st' = as_spans st \<and> as_tokens st' = as_tokens st \<and> as_pages st' = as_pages st"
proof (induction tds arbitrary: st)
  case Nil
  then show ?case by simp
next
  case (Cons td tds)
  from Cons.prems obtain s1 where s1: "add_table pn w h st td = Inr s1"
      "fold_err (add_table pn w h) s1 tds = Inr st'"
    by (auto split: sum.splits)
  from Cons.IH [OF s1(2)] add_table_Inr [OF s1(1)] show ?case
    by simp
qed

lemma add_page_Inr:
  assumes "add_page m t st p = Inr st'"
  obtains st1 st2 where
    "st1 = st\<lparr> as_pages := as_pages st @
                 [\<lparr> pg_page_number = pd_page_number p, pg_width = pd_width p,
                    pg_height = pd_height p, pg_rotation = 0 \<rparr>] \<rparr>"
    "fold_err (add_text_block (pd_page_number p) (pd_width p) (pd_height p)) st1
       (page_text_blocks m p) = Inr st2"
    "fold_err (add_table (pd_page_number p) (pd_width p) (pd_height p)) st2
       (page_tables t p) = Inr st'"
    "1 \<le> pd_page_number p" "0 < pd_width p" "0 < pd_height p"
  using assms
  by (auto simp: add_page_def Let_def page_text_blocks_def page_tables_def
      split: if_splits sum.splits)

lemma add_page_blocks:
  assumes "add_page m t st p = Inr st'"
  shows "as_blocks st' = as_blocks st @ page_blocks m t (length (as_blocks st)) p"
proof -
  from assms obtain st1 st2 where
    s: "st1 = st\<lparr> as_pages := as_pages st @
                 [\<lparr> pg_page_number = pd_page_number p, pg_width = pd_width p,
                    pg_height = pd_height p, pg_rotation = 0 \<rparr>] \<rparr>"
    "fold_err (add_text_block (pd_page_number p) (pd_width p) (pd_height p)) st1
       (page_text_blocks m p) = Inr st2"
    "fold_err (add_table (pd_page_number p) (pd_width p) (pd_height p)) st2
       (page_tables t p) = Inr st'"
    by (rule add_page_Inr)
  from text_loop_blocks [OF s(2)] table_loop_blocks [OF s(3)] s(1) show ?thesis
    by (simp add: page_blocks_def Let_def)
qed

lemma add_page_edges_inv:
  assumes "add_page m t st p = Inr st'" and "edges_inv st"
  shows "edges_inv st'"
proof -
  from assms(1) obtain st1 st2 where
    s: "st1 = st\<lparr> as_pages := as_pages st @
                 [\<lparr> pg_page_number = pd_page_number p, pg_width = pd_width p,
                    pg_height = pd_height p, pg_rotation = 0 \<rparr>] \<rparr>"
    "fold_err (add_text_block (pd_page_number p) (pd_width p) (pd_height p)) st1
       (page_text_blocks m p) = Inr st2"
    "fold_err (add_table (pd_page_number p) (pd_width p) (pd_height p)) st2
       (page_tables t p) = Inr st'"
    by (rule add_page_Inr)
  from assms(2) s(1) have "edges_inv st1"
    by (simp add: edges_inv_def)
  with s(2) have "edges_inv st2"
    by (rule fold_err_inv) (erule edges_inv_text)
  with s(3) show ?thesis
    by (rule fold_err_inv) (erule edges_inv_table)
qed

lemma pages_loop_blocks:
  "fold_err (add_page m t) st ps = Inr st' \<Longrightarrow>
   as_blocks st' = as_blocks st @ emit_blocks m t (length (as_blocks st)) ps"
proof (induction ps arbitrary: st)
  case Nil
  then show ?case by simp
next
  case (Cons p ps)
  from Cons.prems obtain s1 where s1: "add_page m t st p = Inr s1"
      "fold_err (add_page m t) s1 ps = Inr st'"
    by (auto split: sum.splits)
  from Cons.IH [OF s1(2)] add_page_blocks [OF s1(1)] show ?case
    by (simp add: Let_def)
qed

lemma assemble_Inr:
  assumes "assemble_document doc_id ps m t styles source = Inr doc"
  obtains st where "fold_err (add_page m t) empty_state ps = Inr st"
    "ld_blocks doc = as_blocks st" "of_opt (ld_reading_graph doc) = as_edges st"
    "of_opt (ld_spans doc) = as_spans st" "of_opt (ld_tokens doc) = as_tokens st"
    "of_opt (ld_tables doc) = as_tables st" "ld_pages doc = as_pages st"
    "of_opt (ld_styles doc) = map (\<lambda>(sid, sdict). (sid, convert_style sdict)) styles"
    "dm_document_id (ld_document doc) = doc_id"
  using assms
  by (auto simp: assemble_document_def Let_def split: sum.splits)

lemma assemble_edges:
  assumes "assemble_document doc_id ps m t styles source = Inr doc"
  shows "of_opt (ld_reading_graph doc) = chain (map bl_id (ld_blocks doc))
     \<and> ld_blocks doc = emit_blocks m t 0 ps"
proof -
  from assms obtain st where st: "fold_err (add_page m t) empty_state ps = Inr st"
    "ld_blocks doc = as_blocks st" "of_opt (ld_reading_graph doc) = as_edges st"
    by (rule assemble_Inr)
  have "edges_inv empty_state"
    by (simp add: edges_inv_def empty_state_def)
  with st(1) have "edges_inv st"
    by (rule fold_err_inv) (erule add_page_edges_inv)
  moreover from pages_loop_blocks [OF st(1)] have "as_blocks st = emit_blocks m t 0 ps"
    by (simp add: empty_state_def)
  ultimately show ?thesis
    using st by (simp add: edges_inv_def)
qed


lemma dict_get_subset: "set (dict_get d k) \<subseteq> set (concat (map snd d))"
proof (cases "map_of d k")
  case None
  then show ?thesis by (simp add: dict_get_def)
next
  case (Some v)
  then have "(k, v) \<in> set d" by (rule map_of_SomeD)
  then have "set v \<subseteq> set (concat (map snd d))" by force
  with Some show ?thesis by (simp add: dict_get_def)
qed

lemma page_text_blocks_subset: "set (page_text_blocks m p) \<subseteq> set (concat (map snd m))"
  using dict_get_subset [of m] by (simp add: page_text_blocks_def)

lemma page_tables_subset: "set (page_tables t p) \<subseteq> set (concat (map snd t))"
  using dict_get_subset [of t] by (simp add: page_tables_def)

lemma page_blocks_ids:
  "bl_id ` set (page_blocks m t n p)
     \<subseteq> b_id ` set (concat (map snd m)) \<union> t_id ` set (concat (map snd t))"
proof -
  have "bl_id ` set (page_blocks m t n p)
      \<subseteq> b_id ` set (page_text_blocks m p) \<union> t_id ` set (page_tables t p)"
    by (auto simp: page_blocks_def Let_def in_set_enumerate_eq)
  with page_text_blocks_subset [of m p] page_tables_subset [of t p] show ?thesis
    by blast
qed

lemma emit_blocks_ids:
  "bl_id ` set (emit_blocks m t n ps)
     \<subseteq> b_id ` set (concat (map snd m)) \<union> t_id ` set (concat (map snd t))"
proof (induction ps arbitrary: n)
  case Nil
  then show ?case by simp
next
  case (Cons p ps)
  from page_blocks_ids [of m t n p] Cons.IH [of "n + length (page_blocks m t n p)"]
  show ?case by (simp add: Let_def image_Un)
qed

lemma chain_length: "\<forall>i \<in> set ids. i \<noteq> [] \<Longrightarrow> length (chain ids) = length ids - 1"
  by (simp add: chain_nonempty)

text \<open>
  Claim C4. For every assembled document (block and table ids being UUID strings, hence
  not empty), the blocks are the emitted blocks: page after page, the page's text blocks
  in reading order, then the page's synthetic table blocks. The reading graph contains
  only edges of relation \<open>next\<close>; with \<open>N\<close> blocks it has \<open>N - 1\<close> edges, the \<open>k\<close>-th
  going from the \<open>k\<close>-th block to the next one, over the whole document, page
  boundaries included.
\<close>

theorem reading_graph_chain:
  assumes "assemble_document doc_id pages_data merged_blocks tables_by_page styles source = Inr doc"
    and "\<forall>b \<in> set (concat (map snd merged_blocks)). b_id b \<noteq> []"
    and "\<forall>t \<in> set (concat (map snd tables_by_page)). t_id t \<noteq> []"
  shows "ld_blocks doc = emit_blocks merged_blocks tables_by_page 0 pages_data
    \<and> of_opt (ld_reading_graph doc)
        = map (\<lambda>(a, b). next_edge a b)
            (zip (map bl_id (ld_blocks doc)) (tl (map bl_id (ld_blocks doc))))
    \<and> length (of_opt (ld_reading_graph doc)) = length (ld_blocks doc) - 1
    \<and> (\<forall>k. Suc k < length (ld_blocks doc)
          \<longrightarrow> of_opt (ld_reading_graph doc) ! k
              = next_edge (bl_id (ld_blocks doc ! k)) (bl_id (ld_blocks doc ! Suc k)))
    \<and> (\<forall>e \<in> set (of_opt (ld_reading_graph doc)). e_relation e = R_next)"
proof -
  let ?ids = "map bl_id (ld_blocks doc)"
  let ?es = "of_opt (ld_reading_graph doc)"
  from assemble_edges [OF assms(1)]
  have es: "?es = chain ?ids" and bs: "ld_blocks doc = emit_blocks merged_blocks tables_by_page 0 pages_data"
    by simp_all
  have sub: "set ?ids \<subseteq> b_id ` set (concat (map snd merged_blocks))
      \<union> t_id ` set (concat (map snd tables_by_page))"
    using emit_blocks_ids [of merged_blocks tables_by_page 0 pages_data] bs by simp
  have ne: "\<forall>i \<in> set ?ids. i \<noteq> []"
  proof
    fix i assume "i \<in> set ?ids"
    with sub have "i \<in> b_id ` set (concat (map snd merged_blocks))
        \<or> i \<in> t_id ` set (concat (map snd tables_by_page))"
      by blast
    with assms(2,3) show "i \<noteq> []"
      by (auto simp del: set_concat)
  qed
  have eq: "?es = map (\<lambda>(a, b). next_edge a b) (zip ?ids (tl ?ids))"
    using es chain_nonempty [OF ne] by simp
  have len: "length ?es = length (ld_blocks doc) - 1"
    by (simp add: eq)
  have nth: "\<forall>k. Suc k < length (ld_blocks doc)
          \<longrightarrow> ?es ! k = next_edge (bl_id (ld_blocks doc ! k)) (bl_id (ld_blocks doc ! Suc k))"
    by (simp add: eq nth_tl)
  have rel: "\<forall>e \<in> set ?es. e_relation e = R_next"
    by (auto simp: eq next_edge_def)
  from bs eq len nth rel show ?thesis
    by blast
qed

definition assign_style :: "style_hash \<Rightarrow> block_d \<Rightarrow> block_d" where
  "assign_style H b = b\<lparr> b_style_id := Some (hash_style H (style_of_block b)) \<rparr>"

lemma styles_loop_fst: "fst (styles_loop H st bs) = map (assign_style H) bs"
  by (induction bs arbitrary: st) (simp_all add: Let_def assign_style_def split_beta)

lemma styles_loop_keys:
  "fst ` set (snd (styles_loop H st bs))
     = fst ` set st \<union> (\<lambda>b. hash_style H (style_of_block b)) ` set bs"
proof (induction bs arbitrary: st)
  case Nil
  then show ?case by simp
next
  case (Cons b bs)
  let ?k = "hash_style H (style_of_block b)"
  let ?st = "if ?k \<in> fst ` set st then st else st @ [(?k, style_of_block b)]"
  have "snd (styles_loop H st (b # bs)) = snd (styles_loop H ?st bs)"
    by (simp add: Let_def split_beta)
  moreover have "fst ` set ?st = insert ?k (fst ` set st)"
    by auto
  ultimately show ?case
    using Cons.IH [of ?st] by auto
qed

lemma regroup_map:
  "regroup m (map f (concat (map snd m)) @ rest) = map (\<lambda>(k, bs). (k, map f bs)) m"
  by (induction m arbitrary: rest) (auto simp: take_map [symmetric])

lemma normalize_all_eq:
  "normalize_all H m
     = (map (\<lambda>(k, bs). (k, map (assign_style H) bs)) m,
        snd (normalize_styles H (concat (map snd m))))"
proof -
  have "fst (normalize_styles H (concat (map snd m))) = map (assign_style H) (concat (map snd m))"
    by (simp add: normalize_styles_def styles_loop_fst)
  then show ?thesis
    using regroup_map [of m "assign_style H" "[]"]
    by (simp add: normalize_all_def split_beta)
qed

lemma normalize_styles_keys:
  "fst ` set (snd (normalize_styles H bs)) = (\<lambda>b. hash_style H (style_of_block b)) ` set bs"
  by (simp add: normalize_styles_def styles_loop_keys)


definition ref_inv :: "string set \<Rightarrow> asm_state \<Rightarrow> bool" where
  "ref_inv K st =
     ((\<forall>b \<in> set (as_blocks st). \<forall>s. bl_style_id b = Some s \<longrightarrow> s \<in> K)
      \<and> (\<forall>sp \<in> set (as_spans st).
            (\<forall>s. sp_style_id sp = Some s \<longrightarrow> s \<in> K)
            \<and> sp_block_id sp \<in> bl_id ` set (as_blocks st))
      \<and> (\<forall>tk \<in> set (as_tokens st). tk_block_id tk \<in> bl_id ` set (as_blocks st))
      \<and> (\<forall>e \<in> set (as_edges st).
            e_from e \<in> bl_id ` set (as_blocks st) \<and> e_to e \<in> bl_id ` set (as_blocks st))
      \<and> (\<forall>p. as_prev st = Some p \<longrightarrow> p \<in> bl_id ` set (as_blocks st)))"

lemma ref_inv_text:
  assumes "add_text_block pn w h st bd = Inr st'" and "ref_inv K st"
    and "\<forall>s. b_style_id bd = Some s \<longrightarrow> s \<in> K"
  shows "ref_inv K st'"
proof -
  note st' = add_text_block_Inr [OF assms(1)]
  have sid: "bl_style_id (block_of pn w h bd) = b_style_id bd"
    by (simp add: block_of_def Let_def)
  have ce: "\<forall>e \<in> set (chain_edge (as_prev st) (b_id bd)).
      e_from e \<in> bl_id ` set (as_blocks st) \<and> e_to e = b_id bd"
    using assms(2) by (auto simp: chain_edge_def next_edge_def ref_inv_def split: option.splits)
  show ?thesis
    unfolding ref_inv_def
  proof (intro conjI)
    show "\<forall>b \<in> set (as_blocks st'). \<forall>s. bl_style_id b = Some s \<longrightarrow> s \<in> K"
      using assms(2,3) sid by (auto simp: st' ref_inv_def)
    show "\<forall>sp \<in> set (as_spans st').
            (\<forall>s. sp_style_id sp = Some s \<longrightarrow> s \<in> K)
            \<and> sp_block_id sp \<in> bl_id ` set (as_blocks st')"
      using assms(2,3) by (auto simp: st' ref_inv_def make_span_def)
    show "\<forall>tk \<in> set (as_tokens st'). tk_block_id tk \<in> bl_id ` set (as_blocks st')"
      using assms(2) by (auto simp: st' ref_inv_def make_token_def)
    show "\<forall>e \<in> set (as_edges st').
            e_from e \<in> bl_id ` set (as_blocks st') \<and> e_to e \<in> bl_id ` set (as_blocks st')"
      using assms(2) ce by (auto simp: st' ref_inv_def)
    show "\<forall>p. as_prev st' = Some p \<longrightarrow> p \<in> bl_id ` set (as_blocks st')"
      by (simp add: st')
  qed
qed

lemma ref_inv_table:
  assumes "add_table pn w h st td = Inr st'" and "ref_inv K st"
  shows "ref_inv K st'"
proof -
  note st' = add_table_Inr [OF assms(1)]
  have sid: "bl_style_id (table_block pn w h (length (as_blocks st)) td) = None"
    by (simp add: table_block_def)
  have ce: "\<forall>e \<in> set (chain_edge (as_prev st) (t_id td)).
      e_from e \<in> bl_id ` set (as_blocks st) \<and> e_to e = t_id td"
    using assms(2) by (auto simp: chain_edge_def next_edge_def ref_inv_def split: option.splits)
  show ?thesis
    unfolding ref_inv_def
  proof (intro conjI)
    show "\<forall>b \<in> set (as_blocks st'). \<forall>s. bl_style_id b = Some s \<longrightarrow> s \<in> K"
      using assms(2) sid by (auto simp: st' ref_inv_def)
    show "\<forall>sp \<in> set (as_spans st').
            (\<forall>s. sp_style_id sp = Some s \<longrightarrow> s \<in> K)
            \<and> sp_block_id sp \<in> bl_id ` set (as_blocks st')"
      using assms(2) by (auto simp: st' ref_inv_def)
    show "\<forall>tk \<in> set (as_tokens st'). tk_block_id tk \<in> bl_id ` set (as_blocks st')"
      using assms(2) by (auto simp: st' ref_inv_def)
    show "\<forall>e \<in> set (as_edges st').
            e_from e \<in> bl_id ` set (as_blocks st') \<and> e_to e \<in> bl_id ` set (as_blocks st')"
      using assms(2) ce by (auto simp: st' ref_inv_def)
    show "\<forall>p. as_prev st' = Some p \<longrightarrow> p \<in> bl_id ` set (as_blocks st')"
      by (simp add: st')
  qed
qed

lemma ref_inv_page:
  assumes "add_page m t st p = Inr st'" and "ref_inv K st"
    and "\<forall>b \<in> set (concat (map snd m)). \<forall>s. b_style_id b = Some s \<longrightarrow> s \<in> K"
  shows "ref_inv K st'"
proof -
  from assms(1) obtain st1 st2 where
    s: "st1 = st\<lparr> as_pages := as_pages st @
                 [\<lparr> pg_page_number = pd_page_number p, pg_width = pd_width p,
                    pg_height = pd_height p, pg_rotation = 0 \<rparr>] \<rparr>"
    "fold_err (add_text_block (pd_page_number p) (pd_width p) (pd_height p)) st1
       (page_text_blocks m p) = Inr st2"
    "fold_err (add_table (pd_page_number p) (pd_width p) (pd_height p)) st2
       (page_tables t p) = Inr st'"
    by (rule add_page_Inr)
  from assms(2) s(1) have i1: "ref_inv K st1"
    by (simp add: ref_inv_def)
  from s(2) i1 have "ref_inv K st2"
  proof (rule fold_err_inv)
    fix u bd u'
    assume bd: "bd \<in> set (page_text_blocks m p)" and u: "ref_inv K u"
      and step: "add_text_block (pd_page_number p) (pd_width p) (pd_height p) u bd = Inr u'"
    from bd page_text_blocks_subset have "bd \<in> set (concat (map snd m))"
      by blast
    with assms(3) have "\<forall>s. b_style_id bd = Some s \<longrightarrow> s \<in> K"
      by (auto simp del: set_concat)
    with step u show "ref_inv K u'"
      by (rule ref_inv_text)
  qed
  with s(3) show ?thesis
    by (rule fold_err_inv) (erule ref_inv_table)
qed

lemma assign_style_id:
  "b_style_id (assign_style H b) = Some (hash_style H (style_of_block b))"
  by (simp add: assign_style_def)

text \<open>
  Claim C3. In every document assembled after style normalisation (the common tail of
  the pipelines): every \<open>style_id\<close> on a block or span is a key of the styles map;
  the \<open>from\<close> and \<open>to\<close> of every reading-graph edge are ids of blocks of the blocks
  list; and the \<open>block_id\<close> of every span and token is the id of a block of the list.
\<close>

theorem referential_integrity:
  assumes "normalize_and_assemble H doc_id pages_data merged_blocks tables_by_page source = Inr doc"
  shows "(\<forall>b \<in> set (ld_blocks doc). \<forall>s. bl_style_id b = Some s
            \<longrightarrow> s \<in> fst ` set (of_opt (ld_styles doc)))
    \<and> (\<forall>sp \<in> set (of_opt (ld_spans doc)). \<forall>s. sp_style_id sp = Some s
            \<longrightarrow> s \<in> fst ` set (of_opt (ld_styles doc)))
    \<and> (\<forall>e \<in> set (of_opt (ld_reading_graph doc)).
            e_from e \<in> bl_id ` set (ld_blocks doc) \<and> e_to e \<in> bl_id ` set (ld_blocks doc))
    \<and> (\<forall>sp \<in> set (of_opt (ld_spans doc)). sp_block_id sp \<in> bl_id ` set (ld_blocks doc))
    \<and> (\<forall>tk \<in> set (of_opt (ld_tokens doc)). tk_block_id tk \<in> bl_id ` set (ld_blocks doc))"
proof -
  let ?m = "map (\<lambda>(k, bs). (k, map (assign_style H) bs)) merged_blocks"
  let ?styles = "snd (normalize_styles H (concat (map snd merged_blocks)))"
  let ?K = "fst ` set ?styles"
  from assms have asm: "assemble_document doc_id pages_data ?m tables_by_page ?styles source = Inr doc"
    by (simp add: normalize_and_assemble_def normalize_all_eq)
  then obtain st where st: "fold_err (add_page ?m tables_by_page) empty_state pages_data = Inr st"
    "ld_blocks doc = as_blocks st" "of_opt (ld_reading_graph doc) = as_edges st"
    "of_opt (ld_spans doc) = as_spans st" "of_opt (ld_tokens doc) = as_tokens st"
    "of_opt (ld_styles doc) = map (\<lambda>(sid, sdict). (sid, convert_style sdict)) ?styles"
    by (rule assemble_Inr)
  have keys: "fst ` set (of_opt (ld_styles doc)) = ?K"
    by (force simp: st(6))
  have flat: "concat (map snd ?m) = map (assign_style H) (concat (map snd merged_blocks))"
    by (induction merged_blocks) auto
  have styled: "\<forall>b \<in> set (concat (map snd ?m)). \<forall>s. b_style_id b = Some s \<longrightarrow> s \<in> ?K"
    unfolding flat by (auto simp: assign_style_id normalize_styles_keys simp del: set_concat)
  have "ref_inv ?K empty_state"
    by (simp add: ref_inv_def empty_state_def)
  with st(1) have "ref_inv ?K st"
  proof (rule fold_err_inv)
    fix u p u'
    assume u: "ref_inv ?K u" and step: "add_page ?m tables_by_page u p = Inr u'"
    show "ref_inv ?K u'"
      by (rule ref_inv_page [OF step u styled])
  qed
  then show ?thesis
    unfolding ref_inv_def st(2-5) keys by blast
qed


subsection \<open>A two-page example\<close>

text \<open>
  Page 1 holds a title block with one word and a table, page 2 a body block.
\<close>

definition ex_word :: word where
  "ex_word = \<lparr> w_text = ''Title'', w_x0 = 72, w_y0 = 72, w_x1 = 120, w_y1 = 90,
                w_fontname = ''Arial-Bold'', w_size = 18, w_color = ''#000000'' \<rparr>"

definition ex_b1 :: block_d where
  "ex_b1 = (mk_block ''b1'' ''Title'' (72, 72, 300, 90))
             \<lparr> b_words := [ex_word], b_reading_order := Some 0 \<rparr>"

definition ex_b2 :: block_d where
  "ex_b2 = (mk_block ''b2'' ''Body'' (72, 100, 540, 130)) \<lparr> b_reading_order := Some 0 \<rparr>"

definition ex_pages :: "page_d list" where
  "ex_pages = [\<lparr> pd_page_number = 1, pd_width = 612, pd_height = 792, pd_chars = [] \<rparr>,
               \<lparr> pd_page_number = 2, pd_width = 612, pd_height = 792, pd_chars = [] \<rparr>]"

definition ex_merged :: "(int \<times> block_d list) list" where
  "ex_merged = [(0, [ex_b1]), (1, [ex_b2])]"

definition ex_tables :: "(int \<times> table_d list) list" where
  "ex_tables = [(0, [mk_table ''t1'' (72, 200, 540, 300)])]"

definition ex_H :: style_hash where
  "ex_H k = ''5f1d0c2a9b3e''"

lemma ex_assembles:
  "\<exists>doc. assemble_document ''doc'' ex_pages ex_merged ex_tables [] S_pdf = Inr doc"
  by (simp add: assemble_document_def ex_pages_def ex_merged_def ex_tables_def add_page_def
      dict_get_def empty_state_def add_text_block_def make_block_def add_table_def
      ex_b1_def ex_b2_def mk_block_def mk_table_def reading_order_key_def)

lemma ex_ids:
  "map bl_id (emit_blocks ex_merged ex_tables 0 ex_pages) = [''b1'', ''t1'', ''b2'']"
  by (simp add: ex_pages_def ex_merged_def ex_tables_def page_blocks_def page_text_blocks_def
      page_tables_def dict_get_def ex_b1_def ex_b2_def mk_block_def mk_table_def Let_def)

theorem reading_graph_chain_witness:
  "\<exists>doc. assemble_document ''doc'' ex_pages ex_merged ex_tables [] S_pdf = Inr doc
     \<and> map bl_id (ld_blocks doc) = [''b1'', ''t1'', ''b2'']
     \<and> of_opt (ld_reading_graph doc) = [next_edge ''b1'' ''t1'', next_edge ''t1'' ''b2'']"
proof -
  from ex_assembles obtain doc
    where doc: "assemble_document ''doc'' ex_pages ex_merged ex_tables [] S_pdf = Inr doc"
    by blast
  have b: "\<forall>b \<in> set (concat (map snd ex_merged)). b_id b \<noteq> []"
    by (simp add: ex_merged_def ex_b1_def ex_b2_def mk_block_def)
  have t: "\<forall>t \<in> set (concat (map snd ex_tables)). t_id t \<noteq> []"
    by (simp add: ex_tables_def mk_table_def)
  note th = reading_graph_chain [OF doc b t]
  from th have ids: "map bl_id (ld_blocks doc) = [''b1'', ''t1'', ''b2'']"
    by (simp add: ex_ids)
  from th have "of_opt (ld_reading_graph doc)
      = map (\<lambda>(a, b). next_edge a b)
          (zip (map bl_id (ld_blocks doc)) (tl (map bl_id (ld_blocks doc))))"
    by blast
  then have es: "of_opt (ld_reading_graph doc) = [next_edge ''b1'' ''t1'', next_edge ''t1'' ''b2'']"
    by (simp add: ids)
  show ?thesis
    by (intro exI [of _ doc] conjI) (fact doc ids es)+
qed

lemma ex_normalized:
  "\<exists>doc. normalize_and_assemble ex_H ''doc'' ex_pages ex_merged ex_tables S_pdf = Inr doc
     \<and> map bl_style_id (ld_blocks doc) = [Some ''5f1d0c2a9b3e'', None, Some ''5f1d0c2a9b3e'']
     \<and> map fst (of_opt (ld_styles doc)) = [''5f1d0c2a9b3e'']
     \<and> map tk_block_id (of_opt (ld_tokens doc)) = [''b1'']
     \<and> map sp_block_id (of_opt (ld_spans doc)) = [''b1'', ''b2'']
     \<and> map bl_id (ld_blocks doc) = [''b1'', ''t1'', ''b2'']"
  by (simp add: normalize_and_assemble_def normalize_all_def normalize_styles_def Let_def
      hash_style_def ex_H_def
      assemble_document_def ex_pages_def ex_merged_def ex_tables_def add_page_def
      dict_get_def empty_state_def add_text_block_def make_block_def add_table_def
      ex_b1_def ex_b2_def mk_block_def mk_table_def reading_order_key_def
      block_of_def table_block_def make_span_def make_token_def)

theorem referential_integrity_witness:
  "\<exists>doc. normalize_and_assemble ex_H ''doc'' ex_pages ex_merged ex_tables S_pdf = Inr doc
     \<and> map bl_style_id (ld_blocks doc) = [Some ''5f1d0c2a9b3e'', None, Some ''5f1d0c2a9b3e'']
     \<and> map fst (of_opt (ld_styles doc)) = [''5f1d0c2a9b3e'']
     \<and> map tk_block_id (of_opt (ld_tokens doc)) = [''b1'']
     \<and> map bl_id (ld_blocks doc) = [''b1'', ''t1'', ''b2'']
     \<and> e_from ` set (of_opt (ld_reading_graph doc)) \<subseteq> bl_id ` set (ld_blocks doc)
     \<and> e_to ` set (of_opt (ld_reading_graph doc)) \<subseteq> bl_id ` set (ld_blocks doc)
     \<and> sp_block_id ` set (of_opt (ld_spans doc)) \<subseteq> bl_id ` set (ld_blocks doc)
     \<and> tk_block_id ` set (of_opt (ld_tokens doc)) \<subseteq> bl_id ` set (ld_blocks doc)"
proof -
  from ex_normalized obtain doc
    where ev: "normalize_and_assemble ex_H ''doc'' ex_pages ex_merged ex_tables S_pdf = Inr doc
     \<and> map bl_style_id (ld_blocks doc) = [Some ''5f1d0c2a9b3e'', None, Some ''5f1d0c2a9b3e'']
     \<and> map fst (of_opt (ld_styles doc)) = [''5f1d0c2a9b3e'']
     \<and> map tk_block_id (of_opt (ld_tokens doc)) = [''b1'']
     \<and> map sp_block_id (of_opt (ld_spans doc)) = [''b1'', ''b2'']
     \<and> map bl_id (ld_blocks doc) = [''b1'', ''t1'', ''b2'']"
    by (rule exE)
  then have doc: "normalize_and_assemble ex_H ''doc'' ex_pages ex_merged ex_tables S_pdf = Inr doc"
    by (rule conjunct1)
  note th = referential_integrity [OF doc]
  have r1: "e_from ` set (of_opt (ld_reading_graph doc)) \<subseteq> bl_id ` set (ld_blocks doc)"
    using th by (auto simp only: image_subset_iff)
  have r2: "e_to ` set (of_opt (ld_reading_graph doc)) \<subseteq> bl_id ` set (ld_blocks doc)"
    using th by (auto simp only: image_subset_iff)
  have r3: "sp_block_id ` set (of_opt (ld_spans doc)) \<subseteq> bl_id ` set (ld_blocks doc)"
    using th by (auto simp only: image_subset_iff)
  have r4: "tk_block_id ` set (of_opt (ld_tokens doc)) \<subseteq> bl_id ` set (ld_blocks doc)"
    using th by (auto simp only: image_subset_iff)
  from ev r1 r2 r3 r4 show ?thesis
    by (intro exI [of _ doc]) (simp only: simp_thms)
qed

section \<open>Line builder (geometry/line\_builder.py)\<close>










section \<open>Block builder (geometry/block\_builder.py)\<close>









section \<open>Heuristic classification (pipeline.py)\<close>

text \<open>
  \<open>str.isdigit\<close> holds of the decimal digits and of the superscripts \<open>0xB2\<close>, \<open>0xB3\<close>,
  \<open>0xB9\<close>; \<open>len(text.split())\<close> counts the maximal runs of characters that are not white
  space. Of the five bullet prefixes of \<open>_guess_block_type\<close>, only the hyphen is a string
  of code points below 256.
\<close>

definition isdigit_char :: "char \<Rightarrow> bool" where
  "isdigit_char c = (is_digit c \<or> c \<in> set [CHR 0xB2, CHR 0xB3, CHR 0xB9])"

definition str_isdigit :: "string \<Rightarrow> bool" where
  "str_isdigit s = (s \<noteq> [] \<and> list_all isdigit_char s)"

definition word_count :: "string \<Rightarrow> nat" where
  "word_count s =
     length (filter (\<lambda>(p, c). is_space p \<and> \<not> is_space c) (zip (CHR '' '' # s) s))"

definition guess_block_type :: "block_d \<Rightarrow> string" where
  "guess_block_type block =
     (let size = b_size block;
          fontname = lower (b_fontname block);
          txt = b_text block
      in if 14 \<le> size \<or> (contains ''bold'' fontname \<and> 12 \<le> size) then ''heading''
         else if word_count txt \<le> 3 \<and> str_isdigit (strip txt) then ''page_number''
         else if take 1 (dropWhile is_space txt) = ''-''
                 \<or> (2 < length txt \<and> isdigit_char (txt ! 0) \<and> txt ! 1 \<in> set ''.)'')
         then ''list_item''
         else ''paragraph'')"

definition role_map :: "(string \<times> string) list" where
  "role_map =
     [(''heading'', ''section_title''), (''paragraph'', ''paragraph''),
      (''list_item'', ''list_item''), (''table'', ''table''), (''figure'', ''figure''),
      (''caption'', ''caption''), (''header'', ''header''), (''footer'', ''footer''),
      (''page_number'', ''footer''), (''code_block'', ''paragraph'')]"

definition guess_role :: "block_d \<Rightarrow> string" where
  "guess_role block =
     (let bt = (case b_block_type block of None \<Rightarrow> ''paragraph'' | Some v \<Rightarrow> v)
      in case map_of role_map bt of None \<Rightarrow> ''paragraph'' | Some r \<Rightarrow> r)"

text \<open>The body of the loop without the Vision API, on the \<open>i\<close>-th block of a page.\<close>

definition classify :: "nat \<Rightarrow> block_d \<Rightarrow> block_d" where
  "classify i b =
     (let b1 = b\<lparr> b_block_type := Some (guess_block_type b) \<rparr>;
          b2 = b1\<lparr> b_role := Some (guess_role b1) \<rparr>
      in b2\<lparr> b_reading_order := Some (int i) \<rparr>)"

text \<open>The body of the loop after a failure of the Vision API: three \<open>setdefault\<close> calls.\<close>

definition classify_fallback :: "nat \<Rightarrow> block_d \<Rightarrow> block_d" where
  "classify_fallback i b =
     b\<lparr> b_block_type :=
          (case b_block_type b of None \<Rightarrow> Some (guess_block_type b) | Some v \<Rightarrow> Some v),
        b_role := (case b_role b of None \<Rightarrow> Some ''paragraph'' | Some v \<Rightarrow> Some v),
        b_reading_order := (case b_reading_order b of None \<Rightarrow> Some (int i) | Some v \<Rightarrow> Some v) \<rparr>"

section \<open>The PDF pipeline (pipeline.py, \<open>process_pdf\<close>)\<close>









section \<open>What the PDF pipeline hands to the assembler\<close>





subsection \<open>Tagging keeps the ids\<close>


lemma b_id_classify [simp]: "b_id (classify i b) = b_id b"
  by (simp add: classify_def Let_def)

lemma b_id_classify_fallback [simp]: "b_id (classify_fallback i b) = b_id b"
  by (simp add: classify_fallback_def)

lemma b_id_apply_tag [simp]: "b_id (apply_tag b t i) = b_id b"
  by (simp add: apply_tag_def)

lemma b_id_set_defaults [simp]: "b_id (set_defaults i b) = b_id b"
  by (simp add: set_defaults_def)












section \<open>A two-page PDF\<close>




































section \<open>De-duplication and the final block list\<close>





end
